theory Spec2Isabelle
  imports Main "HOL-Library.Word"
begin

section \<open>Go values used by the subscriber\<close>

text \<open>
  Go's \<^verbatim>\<open>int\<close> is a 64-bit two's complement integer on the platforms the service
  runs on; comparison is signed (\<open>word_sle\<close>, \<open>word_sless\<close>) and \<^verbatim>\<open>++\<close> wraps.
  A \<^verbatim>\<open>[]byte\<close> is a list of bytes, a Go \<^verbatim>\<open>error\<close> is represented by what its
  \<^verbatim>\<open>Error()\<close> method returns, and \<^verbatim>\<open>nil\<close> is \<open>None\<close>.
\<close>

type_synonym go_int = "64 word"
type_synonym bytes = string
type_synonym duration = "64 word"

datatype error = errorNew (Error: string)

subsection \<open>strconv.Atoi and strconv.Itoa\<close>

text \<open>
  The two functions of Go's standard library that \<^verbatim>\<open>getRetries\<close> and \<^verbatim>\<open>retry\<close> call.
  \<^verbatim>\<open>Atoi(s)\<close> is \<^verbatim>\<open>ParseInt(s, 10, 0)\<close> converted to \<^verbatim>\<open>int\<close> (its fast path for short
  strings computes the same result). \<^verbatim>\<open>ParseInt\<close> takes off an optional sign and
  calls \<^verbatim>\<open>ParseUint\<close>, whose loop reads the bytes from the left into a 64-bit
  unsigned accumulator: a byte that is not a decimal digit ends it with the value 0
  and a syntax error; digits that overflow the accumulator end it at once, before
  the rest of the string is read, with the largest value and a range error.
  \<^verbatim>\<open>ParseInt\<close> returns 0 on a syntax error and the nearest bound of \<^verbatim>\<open>int\<close> with a
  range error when the magnitude does not fit. The accumulator is a \<open>nat\<close> here, with
  the two overflow tests of the loop written as comparisons with \<open>maxUint64\<close>.
\<close>

datatype NumError = ErrSyntax | ErrRange

definition isDigit :: "char \<Rightarrow> bool" where
  "isDigit c = (48 \<le> (of_char c :: nat) \<and> (of_char c :: nat) \<le> 57)"

definition digitVal :: "char \<Rightarrow> nat" where
  "digitVal c = of_char c - 48"

definition maxUint64 :: nat where
  "maxUint64 = 2 ^ 64 - 1"

definition cutoff :: nat where
  "cutoff = maxUint64 div 10 + 1"

fun ParseUintLoop :: "nat \<Rightarrow> string \<Rightarrow> nat \<times> NumError option" where
  "ParseUintLoop n [] = (n, None)"
| "ParseUintLoop n (c # cs) =
     (if \<not> isDigit c then (0, Some ErrSyntax)
      else if cutoff \<le> n then (maxUint64, Some ErrRange)
      else
        let n1 = n * 10 + digitVal c in
        if maxUint64 < n1 then (maxUint64, Some ErrRange)
        else ParseUintLoop n1 cs)"

definition ParseUint :: "string \<Rightarrow> nat \<times> NumError option" where
  "ParseUint s = (if s = [] then (0, Some ErrSyntax) else ParseUintLoop 0 s)"

definition maxInt :: int where
  "maxInt = 2 ^ 63 - 1"

definition minInt :: int where
  "minInt = - (2 ^ 63)"

definition splitSign :: "string \<Rightarrow> bool \<times> string" where
  "splitSign s =
     (case s of
        [] \<Rightarrow> (False, [])
      | c # r \<Rightarrow>
          if c = CHR ''-'' then (True, r)
          else if c = CHR ''+'' then (False, r)
          else (False, s))"

definition ParseInt :: "string \<Rightarrow> int \<times> NumError option" where
  "ParseInt s =
     (if s = [] then (0, Some ErrSyntax)
      else
        let (neg, ds) = splitSign s;
            (un, err) = ParseUint ds
        in if err = Some ErrSyntax then (0, Some ErrSyntax)
           else if \<not> neg \<and> 2 ^ 63 \<le> un then (maxInt, Some ErrRange)
           else if neg \<and> 2 ^ 63 < un then (minInt, Some ErrRange)
           else (if neg then - int un else int un, None))"

definition Atoi :: "string \<Rightarrow> go_int \<times> NumError option" where
  "Atoi s = (let (i, err) = ParseInt s in (word_of_int i, err))"

text \<open>
  For the statements about \<^verbatim>\<open>Atoi\<close>: \<open>isDecimal\<close> says that a string is an optional
  sign followed by one or more decimal digits and nothing else, \<open>decimalValue\<close> is
  the integer such a string denotes, and \<open>digitPrefix\<close> is the run of digits that
  follows the sign, up to the first byte that is not a digit.
\<close>

definition parseDigits :: "string \<Rightarrow> nat" where
  "parseDigits ds = foldl (\<lambda>n c. n * 10 + digitVal c) 0 ds"

definition isDecimal :: "string \<Rightarrow> bool" where
  "isDecimal s = (let (neg, ds) = splitSign s in ds \<noteq> [] \<and> list_all isDigit ds)"

definition decimalValue :: "string \<Rightarrow> int" where
  "decimalValue s =
     (let (neg, ds) = splitSign s;
          n = int (parseDigits ds)
      in if neg then - n else n)"

definition digitPrefix :: "string \<Rightarrow> string" where
  "digitPrefix s = takeWhile isDigit (snd (splitSign s))"

definition digitChar :: "nat \<Rightarrow> char" where
  "digitChar d = ''0123456789'' ! d"

fun formatNat :: "nat \<Rightarrow> string" where
  "formatNat n =
     (if n < 10 then [digitChar n]
      else formatNat (n div 10) @ [digitChar (n mod 10)])"

declare formatNat.simps [simp del]

definition Itoa :: "go_int \<Rightarrow> string" where
  "Itoa i =
     (if sint i < 0 then CHR ''-'' # formatNat (nat (- sint i))
      else formatNat (nat (sint i)))"

section \<open>Messages, the transport and the observable trace\<close>

text \<open>
  \<^verbatim>\<open>pubsub.Message\<close>: the fields the subscriber reads. \<^verbatim>\<open>Attributes\<close> is a Go map
  and may be \<^verbatim>\<open>nil\<close>.
\<close>

record message =
  ID :: string
  Data :: bytes
  Attributes :: "(string \<rightharpoonup> string) option"

text \<open>
  The \<^verbatim>\<open>interface{}\<close> handed to the producer is either the raw \<^verbatim>\<open>message.Data\<close>
  (dead-lettering) or the deserialized body (retry).
\<close>

datatype 'b payload = Raw bytes | Body 'b

datatype topic = Topic string

record subscription =
  subscriptionID :: string
  MaxOutstandingMessages :: go_int

datatype level = InfoLevel | WarnLevel | ErrorLevel

text \<open>
  Every call that leaves the subscriber is recorded, in order, with its arguments:
  log lines (level and formatted text; the structured fields of logrus are not
  recorded), \<^verbatim>\<open>Exists\<close>, \<^verbatim>\<open>createTopicIfNotExists\<close>, \<^verbatim>\<open>CreateSubscription\<close>, \<^verbatim>\<open>Receive\<close>,
  the handler, \<^verbatim>\<open>PublishWihAttribrutes\<close> and \<^verbatim>\<open>message.Ack()\<close> (with the message's ID).
  An event says that the call was made, not that it succeeded.
\<close>

datatype 'b event =
    Log level string
  | CallExists string
  | CallCreateTopicIfNotExists string
  | CallCreateSubscription string "topic option" duration
  | CallReceive subscription
  | CallHandler 'b
  | CallPublish string "'b payload" "string \<rightharpoonup> string"
  | CallAck string

text \<open>
  The handler either returns (an error or \<^verbatim>\<open>nil\<close>) or panics with a value.
\<close>

datatype outcome = Returns "error option" | Panics string

text \<open>
  The collaborators that are not part of \<^verbatim>\<open>subscriber.go\<close> are parameters: the
  pub/sub client (\<^verbatim>\<open>Subscription.Exists\<close>, \<^verbatim>\<open>Client.CreateSubscription\<close>), the
  repository's \<^verbatim>\<open>createTopicIfNotExists\<close> and the producer's
  \<^verbatim>\<open>PublishWihAttribrutes\<close>. Each takes the state of the outside world \<open>'w\<close> and
  returns its Go results with the new state, so that the same call may succeed once
  and fail the next time.
\<close>

record ('w, 'b) pubsubClient =
  Exists :: "string \<Rightarrow> 'w \<Rightarrow> (bool \<times> error option) \<times> 'w"
  CreateSubscription ::
    "string \<Rightarrow> topic option \<Rightarrow> duration \<Rightarrow> 'w \<Rightarrow> (subscription option \<times> error option) \<times> 'w"
  createTopicIfNotExists :: "string \<Rightarrow> 'w \<Rightarrow> (topic option \<times> error option) \<times> 'w"
  PublishWihAttribrutes ::
    "string \<Rightarrow> 'b payload \<Rightarrow> (string \<rightharpoonup> string) \<Rightarrow> 'w \<Rightarrow> error option \<times> 'w"

text \<open>
  \<^verbatim>\<open>PubSubSubscriber\<close>. \<open>handleType\<close> stands for the target type together with
  \<^verbatim>\<open>json.Unmarshal\<close> into a fresh value of it: the decoder from the payload to the
  body or an error. The handler reads the body and may act on the outside world; by
  its contract it does not change the body. The producer is the client's
  \<^verbatim>\<open>PublishWihAttribrutes\<close>. \<^verbatim>\<open>NewPubSubSubscriber\<close> starts from \<^verbatim>\<open>maxRetries = 5\<close> and
  an acknowledgement deadline of ten seconds, applies the options, and then fixes
  \<open>maxRetriesAttribute\<close> to \<^verbatim>\<open>"retries"\<close>; what follows holds for any record.
\<close>

record ('w, 'b) PubSubSubscriber =
  client :: "('w, 'b) pubsubClient"
  handler :: "'b \<Rightarrow> 'w \<Rightarrow> outcome \<times> 'w"
  subscriberID :: string
  topicID :: string
  handleType :: "bytes \<Rightarrow> error + 'b"
  maxRetries :: go_int
  maxRetriesAttribute :: string
  maxOutstandingMessages :: go_int
  ackDeadline :: duration

record ('w, 'b) state =
  world :: 'w
  trace :: "'b event list"

definition emit :: "'b event \<Rightarrow> ('w, 'b) state \<Rightarrow> ('w, 'b) state" where
  "emit e st = st\<lparr>trace := trace st @ [e]\<rparr>"

definition call :: "'b event \<Rightarrow> ('w \<Rightarrow> 'r \<times> 'w) \<Rightarrow> ('w, 'b) state \<Rightarrow> 'r \<times> ('w, 'b) state" where
  "call e f st = (let (r, w) = f (world st) in (r, \<lparr>world = w, trace = trace st @ [e]\<rparr>))"

section \<open>The subscriber\<close>

subsection \<open>getRetries, retry, dlq\<close>

text \<open>
  \<^verbatim>\<open>getRetries\<close> replaces a \<^verbatim>\<open>nil\<close> attribute map by an empty one on the message
  itself, so the message is returned with the count. \<^verbatim>\<open>retry\<close> reads the count again,
  increments it, stores its decimal form in the message's own map (which
  \<^verbatim>\<open>getRetries\<close> has just made non-\<^verbatim>\<open>nil\<close>) and hands body and map to the producer.
  \<^verbatim>\<open>dlq\<close> ensures the topic \<^verbatim>\<open>topicID_dlq\<close> and, unless that failed, publishes the
  raw payload with the error's text as the only attribute.
\<close>

definition getRetries :: "('w, 'b) PubSubSubscriber \<Rightarrow> message \<Rightarrow> go_int \<times> message" where
  "getRetries s m =
     (let attrs = (case Attributes m of None \<Rightarrow> Map.empty | Some a \<Rightarrow> a);
          m' = m\<lparr>Attributes := Some attrs\<rparr>
      in case attrs (maxRetriesAttribute s) of
           None \<Rightarrow> (0, m')
         | Some attribute \<Rightarrow> (fst (Atoi attribute), m'))"

definition retry ::
  "('w, 'b) PubSubSubscriber \<Rightarrow> message \<Rightarrow> 'b \<Rightarrow> ('w, 'b) state
     \<Rightarrow> (error option \<times> message) \<times> ('w, 'b) state" where
  "retry s m body st =
     (let (retries, m1) = getRetries s m;
          retries' = retries + 1;
          attrs = (case Attributes m1 of None \<Rightarrow> Map.empty | Some a \<Rightarrow> a)
                    (maxRetriesAttribute s \<mapsto> Itoa retries');
          m2 = m1\<lparr>Attributes := Some attrs\<rparr>;
          (r, st') = call (CallPublish (topicID s) (Body body) attrs)
                       (PublishWihAttribrutes (client s) (topicID s) (Body body) attrs) st
      in ((r, m2), st'))"

definition dlqTopic :: "('w, 'b) PubSubSubscriber \<Rightarrow> string" where
  "dlqTopic s = topicID s @ ''_dlq''"

definition dlq ::
  "('w, 'b) PubSubSubscriber \<Rightarrow> message \<Rightarrow> error \<Rightarrow> ('w, 'b) state
     \<Rightarrow> error option \<times> ('w, 'b) state" where
  "dlq s m e st =
     (let dlq = dlqTopic s;
          st1 = emit (Log InfoLevel (''sending message '' @ ID m @ '' to '' @ dlq)) st;
          ((_, err), st2) = call (CallCreateTopicIfNotExists dlq) (createTopicIfNotExists (client s) dlq) st1
      in case err of
           Some e' \<Rightarrow> (Some e', st2)
         | None \<Rightarrow>
             let attributes = [''error'' \<mapsto> Error e]
             in call (CallPublish dlq (Raw (Data m)) attributes)
                  (PublishWihAttribrutes (client s) dlq (Raw (Data m)) attributes) st2)"

subsection \<open>createSubscriptionIfNotExists\<close>

text \<open>
  \<^verbatim>\<open>client.Subscription(id)\<close> builds a handle without talking to the transport; its
  receive settings start at Go's zero value and \<^verbatim>\<open>Run\<close> overwrites the one it sets.
  A function that returns a subscription pointer and an error returns a pair of
  options: \<open>None\<close> in the first place is the \<^verbatim>\<open>nil\<close> pointer.
\<close>

definition Subscription :: "string \<Rightarrow> subscription" where
  "Subscription ident = \<lparr>subscriptionID = ident, MaxOutstandingMessages = 0\<rparr>"

definition createSubscriptionIfNotExists ::
  "('w, 'b) pubsubClient \<Rightarrow> string \<Rightarrow> string \<Rightarrow> duration \<Rightarrow> ('w, 'b) state
     \<Rightarrow> (subscription option \<times> error option) \<times> ('w, 'b) state" where
  "createSubscriptionIfNotExists c subscriberID' topicID' ackDeadline' st =
     (let subscriber = Subscription subscriberID';
          ((exists, err), st1) = call (CallExists subscriberID') (Exists c subscriberID') st
      in if err \<noteq> None \<or> exists then ((Some subscriber, err), st1)
         else
           let ((topic, err), st2) = call (CallCreateTopicIfNotExists topicID') (createTopicIfNotExists c topicID') st1
           in case err of
                Some e \<Rightarrow>
                  ((None, Some e), emit (Log ErrorLevel (''error creating topic '' @ topicID')) st2)
              | None \<Rightarrow>
                  (let ((subscriber, err), st3) =
                         call (CallCreateSubscription subscriberID' topic ackDeadline')
                           (CreateSubscription c subscriberID' topic ackDeadline') st2
                   in (case err of
                         Some e \<Rightarrow>
                           ((None, Some e),
                            emit (Log ErrorLevel (''error creating subscription '' @ subscriberID')) st3)
                       | None \<Rightarrow> ((subscriber, None), st3))))"

subsection \<open>The receive callback of Run\<close>

text \<open>
  \<open>classify\<close> is the block under \<^verbatim>\<open>if err != nil\<close> that follows the handler call:
  the error is logged, then the message is dead-lettered or retried, and a failure of
  either is logged.

  \<open>callbackBody\<close> is the statements of the callback after the \<^verbatim>\<open>defer\<close>. The result is the panic in
  flight when the statements stop (if any), the callback's variable \<^verbatim>\<open>err\<close> and the
  message, whose attribute map \<^verbatim>\<open>getRetries\<close> and \<^verbatim>\<open>retry\<close> update in place. When
  the handler panics, the assignment to \<^verbatim>\<open>err\<close> does not happen: \<^verbatim>\<open>err\<close> keeps
  the \<^verbatim>\<open>nil\<close> that \<^verbatim>\<open>json.Unmarshal\<close> returned.
\<close>

definition classify ::
  "('w, 'b) PubSubSubscriber \<Rightarrow> message \<Rightarrow> 'b \<Rightarrow> error \<Rightarrow> ('w, 'b) state
     \<Rightarrow> message \<times> ('w, 'b) state" where
  "classify s m body e st =
     (let st1 = emit (Log ErrorLevel (''error processing message '' @ ID m)) st;
          (retries, m1) = getRetries s m
      in if maxRetries s \<le>s retries then
           (let (r, st2) = dlq s m1 e st1
            in (m1, case r of
                      Some _ \<Rightarrow> emit (Log ErrorLevel
                        (''error sending message '' @ ID m @ '' to dlq'')) st2
                    | None \<Rightarrow> st2))
         else
           (let ((r, m2), st2) = retry s m1 body st1
            in (m2, case r of
                      Some _ \<Rightarrow> emit (Log ErrorLevel (''error retrying message '' @ ID m)) st2
                    | None \<Rightarrow> st2)))"

definition callbackBody ::
  "('w, 'b) PubSubSubscriber \<Rightarrow> message \<Rightarrow> 'b \<Rightarrow> ('w, 'b) state
     \<Rightarrow> (string option \<times> error option \<times> message) \<times> ('w, 'b) state" where
  "callbackBody s m body st =
     (let st1 = emit (Log InfoLevel (''processing message '' @ ID m)) st;
          (res, st2) = call (CallHandler body) (handler s body) st1
      in case res of
           Panics p \<Rightarrow> ((Some p, None, m), st2)
         | Returns err \<Rightarrow>
             (let (m', st3) = (case err of None \<Rightarrow> (m, st2) | Some e \<Rightarrow> classify s m body e st2);
                  st4 = emit (Log InfoLevel (''sending ack to message '' @ ID m)) st3;
                  st5 = emit (CallAck (ID m)) st4
              in ((None, err, m'), st5)))"

text \<open>
  The deferred function. \<^verbatim>\<open>recover()\<close> is called first and its value is dropped:
  it stops whatever panic is in flight. The condition that follows tests the
  callback's variable \<^verbatim>\<open>err\<close>. The result is the panic that leaves the callback.
\<close>

definition callbackDeferred ::
  "('w, 'b) PubSubSubscriber \<Rightarrow> message \<Rightarrow> error option \<Rightarrow> string option \<Rightarrow> ('w, 'b) state
     \<Rightarrow> string option \<times> ('w, 'b) state" where
  "callbackDeferred s m err panicking st =
     (let recovered = panicking;
          panicking' = None
      in case err of
           Some e \<Rightarrow>
             let st1 = emit (Log WarnLevel
                         (''consumer panicked with message '' @ ID m @ '' - sending to dlq'')) st;
                 (_, st2) = dlq s m e st1;
                 st3 = emit (CallAck (ID m)) st2
             in (panicking', st3)
         | None \<Rightarrow> (panicking', st))"

definition callback ::
  "('w, 'b) PubSubSubscriber \<Rightarrow> message \<Rightarrow> ('w, 'b) state \<Rightarrow> string option \<times> ('w, 'b) state" where
  "callback s m st =
     (case handleType s (Data m) of
        Inl e \<Rightarrow>
          let st1 = emit (Log ErrorLevel
                      (''cannot unmarshal message '' @ ID m @ '' - sending to dlq'')) st;
              (_, st2) = dlq s m e st1;
              st3 = emit (CallAck (ID m)) st2
          in (None, st3)
      | Inr body \<Rightarrow>
          let ((panicking, err, m'), st1) = callbackBody s m body st
          in callbackDeferred s m' err panicking st1)"

subsection \<open>Run\<close>

text \<open>
  \<^verbatim>\<open>Subscription.Receive\<close> blocks and calls the callback for each delivery; here the
  deliveries are a list, handled one after the other, and the error \<^verbatim>\<open>Receive\<close>
  returns in the end is given. A panic that leaves a callback ends the run.
\<close>

datatype run_result = Returned "error option" | Panicked string

fun Receive ::
  "('w, 'b) PubSubSubscriber \<Rightarrow> message list \<Rightarrow> error option \<Rightarrow> ('w, 'b) state
     \<Rightarrow> run_result \<times> ('w, 'b) state" where
  "Receive s [] final st = (Returned final, st)"
| "Receive s (m # ms) final st =
     (case callback s m st of
        (Some p, st') \<Rightarrow> (Panicked p, st')
      | (None, st') \<Rightarrow> Receive s ms final st')"

definition Run ::
  "('w, 'b) PubSubSubscriber \<Rightarrow> message list \<Rightarrow> error option \<Rightarrow> ('w, 'b) state
     \<Rightarrow> run_result \<times> ('w, 'b) state" where
  "Run s deliveries final st =
     (let ((subscriber, err), st1) =
            createSubscriptionIfNotExists (client s) (subscriberID s) (topicID s) (ackDeadline s) st
      in case subscriber of
           None \<Rightarrow> (Panicked ''invalid memory address or nil pointer dereference'', st1)
         | Some sub \<Rightarrow>
             (let sub' = sub\<lparr>MaxOutstandingMessages := maxOutstandingMessages s\<rparr>
              in (case err of
                    Some e \<Rightarrow>
                      (Returned (Some e),
                       emit (Log ErrorLevel (''error starting '' @ subscriberID s)) st1)
                  | None \<Rightarrow>
                      (let st2 = emit (Log InfoLevel (''starting consumer '' @ subscriberID s
                                    @ '' with topic '' @ topicID s)) st1;
                           st3 = emit (CallReceive sub') st2
                       in Receive s deliveries final st3))))"

subsection \<open>Reading a trace\<close>

text \<open>
  \<open>added st st'\<close> is what a computation that started in \<open>st\<close> and ended in \<open>st'\<close> has
  appended to the trace. \<open>lookupAttribute\<close> is Go's two-valued map read
  \<^verbatim>\<open>v, ok := m.Attributes[k]\<close>, which finds nothing in a \<^verbatim>\<open>nil\<close> map.
\<close>

definition added :: "('w, 'b) state \<Rightarrow> ('w, 'b) state \<Rightarrow> 'b event list" where
  "added st st' = drop (length (trace st)) (trace st')"

definition lookupAttribute :: "message \<Rightarrow> string \<Rightarrow> string option" where
  "lookupAttribute m k = (case Attributes m of None \<Rightarrow> None | Some a \<Rightarrow> a k)"

fun isCallAck :: "'b event \<Rightarrow> bool" where
  "isCallAck (CallAck _) = True"
| "isCallAck _ = False"

fun isCallPublish :: "'b event \<Rightarrow> bool" where
  "isCallPublish (CallPublish _ _ _) = True"
| "isCallPublish _ = False"

fun isCallHandler :: "'b event \<Rightarrow> bool" where
  "isCallHandler (CallHandler _) = True"
| "isCallHandler _ = False"

fun isCreation :: "'b event \<Rightarrow> bool" where
  "isCreation (CallCreateTopicIfNotExists _) = True"
| "isCreation (CallCreateSubscription _ _ _) = True"
| "isCreation _ = False"

section \<open>An in-memory transport for the examples\<close>

text \<open>
  A small transport on which the examples below run: the topics and subscriptions
  that exist, the messages accepted so far, and the topics that are out of reach
  (creating them or publishing to them fails).
\<close>

record 'b broker =
  topics :: "string list"
  subscriptions :: "string list"
  outbox :: "(string \<times> 'b payload \<times> (string \<rightharpoonup> string)) list"
  unreachable :: "string list"

definition memClient :: "('b broker, 'b) pubsubClient" where
  "memClient =
     \<lparr>Exists = (\<lambda>ident w. ((ident \<in> set (subscriptions w), None), w)),
      CreateSubscription = (\<lambda>ident t d w.
        if ident \<in> set (subscriptions w) then ((None, Some (errorNew ''already exists'')), w)
        else ((Some (Subscription ident), None), w\<lparr>subscriptions := ident # subscriptions w\<rparr>)),
      createTopicIfNotExists = (\<lambda>ident w.
        if ident \<in> set (unreachable w) then ((None, Some (errorNew ''unavailable'')), w)
        else if ident \<in> set (topics w) then ((Some (Topic ident), None), w)
        else ((Some (Topic ident), None), w\<lparr>topics := ident # topics w\<rparr>)),
      PublishWihAttribrutes = (\<lambda>t p a w.
        if t \<in> set (unreachable w) then (Some (errorNew ''unavailable''), w)
        else (None, w\<lparr>outbox := outbox w @ [(t, p, a)]\<rparr>))\<rparr>"

text \<open>
  The decoder of the examples stands for \<^verbatim>\<open>json.Unmarshal\<close> into an empty struct on the
  two payloads the examples deliver: \<^verbatim>\<open>{}\<close> decodes, \<^verbatim>\<open>not-json\<close> is rejected with the
  message Go gives for it. Every other payload is outside the examples and is
  rejected with a text of its own.
\<close>

definition unmarshalObject :: "bytes \<Rightarrow> error + string" where
  "unmarshalObject d =
     (if d = ''{}'' then Inr d
      else if d = ''not-json''
        then Inl (errorNew ''invalid character 'o' in literal null (expecting 'u')'')
      else Inl (errorNew ''payload outside the examples''))"

definition failingHandler :: "string \<Rightarrow> string broker \<Rightarrow> outcome \<times> string broker" where
  "failingHandler b w = (Returns (Some (errorNew ''boom'')), w)"

definition succeedingHandler :: "string \<Rightarrow> string broker \<Rightarrow> outcome \<times> string broker" where
  "succeedingHandler b w = (Returns None, w)"

definition panickingHandler :: "string \<Rightarrow> string broker \<Rightarrow> outcome \<times> string broker" where
  "panickingHandler b w = (Panics ''index out of range'', w)"

definition orders ::
  "(string \<Rightarrow> string broker \<Rightarrow> outcome \<times> string broker) \<Rightarrow> go_int
     \<Rightarrow> (string broker, string) PubSubSubscriber" where
  "orders h n =
     \<lparr>client = memClient, handler = h, subscriberID = ''orders-sub'', topicID = ''orders'',
      handleType = unmarshalObject, maxRetries = n, maxRetriesAttribute = ''retries'',
      maxOutstandingMessages = 1000, ackDeadline = 10000000000\<rparr>"

definition start :: "string list \<Rightarrow> (string broker, string) state" where
  "start down =
     \<lparr>world = \<lparr>topics = [], subscriptions = [], outbox = [], unreachable = down\<rparr>, trace = []\<rparr>"

definition delivery :: "bytes \<Rightarrow> (string \<rightharpoonup> string) option \<Rightarrow> message" where
  "delivery d a = \<lparr>ID = ''m1'', Data = d, Attributes = a\<rparr>"

section \<open>Evaluation on concrete inputs\<close>

text \<open>
  The definitions the simplifier unfolds to run the subscriber on the examples.
\<close>

lemmas run_defs =
  Run_def createSubscriptionIfNotExists_def Subscription_def
  callback_def callbackBody_def callbackDeferred_def classify_def retry_def dlq_def dlqTopic_def
  getRetries_def call_def emit_def added_def lookupAttribute_def Let_def
  orders_def memClient_def unmarshalObject_def start_def delivery_def
  failingHandler_def succeedingHandler_def panickingHandler_def word_sle_eq

lemmas atoi_defs =
  Atoi_def ParseInt_def ParseUint_def cutoff_def maxUint64_def
  isDecimal_def decimalValue_def digitPrefix_def splitSign_def isDigit_def parseDigits_def
  digitVal_def maxInt_def minInt_def

lemmas itoa_defs = Itoa_def formatNat.simps digitChar_def

section \<open>The pieces of the callback\<close>

text \<open>
  What each function appends to the trace and leaves in the outside world, for any
  transport and any handler: first \<^verbatim>\<open>dlq\<close> and \<^verbatim>\<open>retry\<close>, then the classification, then
  the callback by the outcome of the handler.
\<close>

lemma dlqTopic_neq: "dlqTopic s \<noteq> topicID s"
  by (simp add: dlqTopic_def)

lemma added_append: "trace st' = trace st @ xs \<Longrightarrow> added st st' = xs"
  by (simp add: added_def)

lemma getRetries_fields [simp]:
  "ID (snd (getRetries s m)) = ID m" "Data (snd (getRetries s m)) = Data m"
  by (simp_all add: getRetries_def Let_def split: option.splits)

lemma getRetries_again [simp]: "getRetries s (snd (getRetries s m)) = getRetries s m"
  by (simp add: getRetries_def Let_def split: option.splits)

lemma dlq_ensure_fails:
  assumes "snd (fst (createTopicIfNotExists (client s) (dlqTopic s) (world st))) = Some e'"
  shows "dlq s m e st =
    (Some e', \<lparr>world = snd (createTopicIfNotExists (client s) (dlqTopic s) (world st)),
       trace = trace st @ [Log InfoLevel (''sending message '' @ ID m @ '' to '' @ dlqTopic s),
                           CallCreateTopicIfNotExists (dlqTopic s)]\<rparr>)"
  using assms by (simp add: dlq_def call_def emit_def Let_def split_def)

lemma dlq_ensure_ok:
  assumes "snd (fst (createTopicIfNotExists (client s) (dlqTopic s) (world st))) = None"
  shows "dlq s m e st =
    (fst (PublishWihAttribrutes (client s) (dlqTopic s) (Raw (Data m)) [''error'' \<mapsto> Error e]
            (snd (createTopicIfNotExists (client s) (dlqTopic s) (world st)))),
     \<lparr>world = snd (PublishWihAttribrutes (client s) (dlqTopic s) (Raw (Data m)) [''error'' \<mapsto> Error e]
            (snd (createTopicIfNotExists (client s) (dlqTopic s) (world st)))),
       trace = trace st @ [Log InfoLevel (''sending message '' @ ID m @ '' to '' @ dlqTopic s),
                           CallCreateTopicIfNotExists (dlqTopic s),
                           CallPublish (dlqTopic s) (Raw (Data m)) [''error'' \<mapsto> Error e]]\<rparr>)"
  using assms by (simp add: dlq_def call_def emit_def Let_def split_def)

lemma trace_dlq:
  "trace (snd (dlq s m e st)) =
     trace st @ [Log InfoLevel (''sending message '' @ ID m @ '' to '' @ dlqTopic s), CallCreateTopicIfNotExists (dlqTopic s)]
       @ (case snd (fst (createTopicIfNotExists (client s) (dlqTopic s) (world st))) of
            None \<Rightarrow> [CallPublish (dlqTopic s) (Raw (Data m)) [''error'' \<mapsto> Error e]]
          | Some _ \<Rightarrow> [])"
  by (cases "snd (fst (createTopicIfNotExists (client s) (dlqTopic s) (world st)))")
     (simp_all add: dlq_ensure_ok dlq_ensure_fails)

lemma retry_result:
  "retry s m body st =
     (let attrs = (case Attributes m of None \<Rightarrow> Map.empty | Some a \<Rightarrow> a)
                    (maxRetriesAttribute s \<mapsto> Itoa (fst (getRetries s m) + 1));
          r = PublishWihAttribrutes (client s) (topicID s) (Body body) attrs (world st)
      in ((fst r, m\<lparr>Attributes := Some attrs\<rparr>),
          \<lparr>world = snd r, trace = trace st @ [CallPublish (topicID s) (Body body) attrs]\<rparr>))"
  by (simp add: retry_def getRetries_def call_def Let_def split_def split: option.splits)


lemma classify_fields [simp]:
  "ID (fst (classify s m body e st)) = ID m" "Data (fst (classify s m body e st)) = Data m"
  by (simp_all add: classify_def retry_result Let_def split_def)

lemma classify_exhausted:
  assumes "maxRetries s \<le>s fst (getRetries s m)"
  shows "trace (snd (classify s m body e st)) =
     trace st @ [Log ErrorLevel (''error processing message '' @ ID m),
                 Log InfoLevel (''sending message '' @ ID m @ '' to '' @ dlqTopic s),
                 CallCreateTopicIfNotExists (dlqTopic s)]
       @ (case snd (fst (createTopicIfNotExists (client s) (dlqTopic s) (world st))) of
            None \<Rightarrow> [CallPublish (dlqTopic s) (Raw (Data m)) [''error'' \<mapsto> Error e]]
          | Some _ \<Rightarrow> [])
       @ (case fst (dlq s (snd (getRetries s m)) e (emit (Log ErrorLevel (''error processing message '' @ ID m)) st)) of
            None \<Rightarrow> []
          | Some _ \<Rightarrow> [Log ErrorLevel (''error sending message '' @ ID m @ '' to dlq'')])"
  using assms
  by (simp add: classify_def Let_def split_def trace_dlq emit_def split: option.splits)

lemma classify_retrying:
  assumes "\<not> maxRetries s \<le>s fst (getRetries s m)"
  shows "trace (snd (classify s m body e st)) =
     trace st @ [Log ErrorLevel (''error processing message '' @ ID m),
                 CallPublish (topicID s) (Body body)
                   ((case Attributes m of None \<Rightarrow> Map.empty | Some a \<Rightarrow> a)
                      (maxRetriesAttribute s \<mapsto> Itoa (fst (getRetries s m) + 1)))]
       @ (case fst (fst (retry s (snd (getRetries s m)) body (emit (Log ErrorLevel (''error processing message '' @ ID m)) st))) of
            None \<Rightarrow> []
          | Some _ \<Rightarrow> [Log ErrorLevel (''error retrying message '' @ ID m)])"
  using assms
  by (simp add: classify_def Let_def split_def retry_result emit_def getRetries_def split: option.splits)

lemma callbackBody_error:
  assumes "fst (handler s body (world st)) = Returns (Some e)"
  shows "callbackBody s m body st =
     ((None, Some e,
       fst (classify s m body e
              \<lparr>world = snd (handler s body (world st)),
                 trace = trace st @ [Log InfoLevel (''processing message '' @ ID m), CallHandler body]\<rparr>)),
      emit (CallAck (ID m)) (emit (Log InfoLevel (''sending ack to message '' @ ID m))
        (snd (classify s m body e
              \<lparr>world = snd (handler s body (world st)),
                 trace = trace st @ [Log InfoLevel (''processing message '' @ ID m), CallHandler body]\<rparr>))))"
  using assms
  by (simp add: callbackBody_def call_def emit_def Let_def split_def)

lemma trace_classify_prefix:
  "\<exists>xs. trace (snd (classify s m body e st)) = trace st @ Log ErrorLevel (''error processing message '' @ ID m) # xs
     \<and> (CallCreateTopicIfNotExists (dlqTopic s) \<in> set xs \<or> (\<exists>a. CallPublish (topicID s) (Body body) a \<in> set xs))"
proof (cases "maxRetries s \<le>s fst (getRetries s m)")
  case True
  then show ?thesis by (simp add: classify_exhausted)
next
  case False
  then show ?thesis by (simp add: classify_retrying)
qed

lemma callbackDeferred_error:
  "callbackDeferred s m (Some e) p st =
     (None, emit (CallAck (ID m))
        (snd (dlq s m e (emit (Log WarnLevel
           (''consumer panicked with message '' @ ID m @ '' - sending to dlq'')) st))))"
  by (simp add: callbackDeferred_def Let_def split_def)

lemma callbackDeferred_nil: "callbackDeferred s m None p st = (None, st)"
  by (simp add: callbackDeferred_def)

subsection \<open>The callback by the outcome of the handler\<close>

lemma callback_handler_error:
  assumes "handleType s (Data m) = Inr body"
    and "fst (handler s body (world st)) = Returns (Some e)"
    and "st0 = \<lparr>world = snd (handler s body (world st)),
                 trace = trace st @ [Log InfoLevel (''processing message '' @ ID m), CallHandler body]\<rparr>"
  shows "fst (callback s m st) = None"
    and "trace (snd (callback s m st)) =
      trace (snd (classify s m body e st0))
        @ [Log InfoLevel (''sending ack to message '' @ ID m), CallAck (ID m),
           Log WarnLevel (''consumer panicked with message '' @ ID m @ '' - sending to dlq''),
           Log InfoLevel (''sending message '' @ ID m @ '' to '' @ dlqTopic s),
           CallCreateTopicIfNotExists (dlqTopic s)]
        @ (case snd (fst (createTopicIfNotExists (client s) (dlqTopic s)
                            (world (snd (classify s m body e st0))))) of
             None \<Rightarrow> [CallPublish (dlqTopic s) (Raw (Data m)) [''error'' \<mapsto> Error e]]
           | Some _ \<Rightarrow> [])
        @ [CallAck (ID m)]"
  using assms
  by (simp_all add: callback_def callbackBody_error callbackDeferred_error trace_dlq emit_def
        split: option.splits)


lemma callback_handler_panics:
  assumes "handleType s (Data m) = Inr body"
    and "fst (handler s body (world st)) = Panics v"
  shows "callback s m st =
     (None, \<lparr>world = snd (handler s body (world st)),
              trace = trace st @ [Log InfoLevel (''processing message '' @ ID m), CallHandler body]\<rparr>)"
  using assms
  by (simp add: callback_def callbackBody_def callbackDeferred_nil call_def emit_def Let_def split_def)

lemma world_classify_exhausted:
  assumes "maxRetries s \<le>s fst (getRetries s m)"
  shows "world (snd (classify s m body e st)) = world (snd (dlq s (snd (getRetries s m)) e
            (emit (Log ErrorLevel (''error processing message '' @ ID m)) st)))"
  using assms by (simp add: classify_def Let_def split_def emit_def split: option.splits)



lemma world_classify_retrying:
  assumes "\<not> maxRetries s \<le>s fst (getRetries s m)"
  shows "world (snd (classify s m body e st)) =
     snd (PublishWihAttribrutes (client s) (topicID s) (Body body)
            ((case Attributes m of None \<Rightarrow> Map.empty | Some a \<Rightarrow> a)
               (maxRetriesAttribute s \<mapsto> Itoa (fst (getRetries s m) + 1)))
            (world st))"
  using assms
  by (simp add: classify_def Let_def split_def retry_result emit_def getRetries_def
        split: option.splits)

lemma world_dlq_ensured:
  assumes "snd (fst (createTopicIfNotExists (client s) (dlqTopic s) (world st))) = None"
  shows "world (snd (dlq s m e st)) =
     snd (PublishWihAttribrutes (client s) (dlqTopic s) (Raw (Data m)) [''error'' \<mapsto> Error e]
            (snd (createTopicIfNotExists (client s) (dlqTopic s) (world st))))"
  by (simp add: dlq_ensure_ok [OF assms])

subsection \<open>Run when provisioning fails\<close>

lemma Run_exists_error_is_returned:
  assumes "snd (fst (Exists (client s) (subscriberID s) (world st))) = Some e"
  shows "fst (Run s deliveries final st) = Returned (Some e)"
    and "added st (snd (Run s deliveries final st))
           = [CallExists (subscriberID s), Log ErrorLevel (''error starting '' @ subscriberID s)]"
  using assms
  by (simp_all add: Run_def createSubscriptionIfNotExists_def call_def emit_def added_def
        Let_def split_def)

lemma Run_subscription_creation_error_panics:
  assumes "fst (Exists (client s) (subscriberID s) (world st)) = (False, None)"
    and "w1 = snd (Exists (client s) (subscriberID s) (world st))"
    and "snd (fst (createTopicIfNotExists (client s) (topicID s) w1)) = None"
    and "snd (fst (CreateSubscription (client s) (subscriberID s)
            (fst (fst (createTopicIfNotExists (client s) (topicID s) w1))) (ackDeadline s)
            (snd (createTopicIfNotExists (client s) (topicID s) w1)))) = Some e"
  shows "fst (Run s deliveries final st) = Panicked ''invalid memory address or nil pointer dereference''"
  using assms
  by (simp add: Run_def createSubscriptionIfNotExists_def call_def emit_def Let_def split_def)

subsection \<open>The retry count\<close>

lemma sint_go_int:
  assumes "minInt \<le> v" "v \<le> maxInt"
  shows "sint (word_of_int v :: go_int) = v"
  using assms
  by (simp add: sint_sbintrunc' signed_take_bit_int_eq_self minInt_def maxInt_def)

lemma accumulate_ge: "n \<le> foldl (\<lambda>n c. n * 10 + digitVal c) n ds"
proof (induction ds arbitrary: n)
  case Nil
  show ?case by simp
next
  case (Cons c cs)
  have "n \<le> n * 10 + digitVal c" by simp
  also have "\<dots> \<le> foldl (\<lambda>n c. n * 10 + digitVal c) (n * 10 + digitVal c) cs"
    by (rule Cons.IH)
  finally show ?case by simp
qed

lemma cutoff_overflows: "cutoff \<le> n \<Longrightarrow> maxUint64 < n * 10 + d"
  by (simp add: cutoff_def maxUint64_def)

lemma ParseUintLoop_digits:
  assumes "list_all isDigit ds"
  shows "ParseUintLoop n ds =
     (if foldl (\<lambda>n c. n * 10 + digitVal c) n ds \<le> maxUint64 \<or> ds = []
      then (foldl (\<lambda>n c. n * 10 + digitVal c) n ds, None)
      else (maxUint64, Some ErrRange))"
  using assms
proof (induction ds arbitrary: n)
  case Nil
  show ?case by simp
next
  case (Cons c cs)
  let ?n1 = "n * 10 + digitVal c"
  from Cons.prems have c: "isDigit c" and cs: "list_all isDigit cs"
    by simp_all
  have ge: "?n1 \<le> foldl (\<lambda>n c. n * 10 + digitVal c) ?n1 cs"
    by (rule accumulate_ge)
  show ?case
  proof (cases "cutoff \<le> n \<or> maxUint64 < ?n1")
    case True
    then have "maxUint64 < ?n1"
      using cutoff_overflows [of n "digitVal c"] by blast
    with ge have "\<not> foldl (\<lambda>n c. n * 10 + digitVal c) ?n1 cs \<le> maxUint64"
      by simp
    with True c show ?thesis
      by (auto simp: Let_def)
  next
    case False
    with c Cons.IH [OF cs, of ?n1] show ?thesis
      by (auto simp: Let_def)
  qed
qed

lemma ParseUintLoop_nondigit:
  assumes "list_all isDigit p" and "\<not> isDigit c"
  shows "ParseUintLoop n (p @ c # rest) =
     (if foldl (\<lambda>n c. n * 10 + digitVal c) n p \<le> maxUint64 \<or> p = []
      then (0, Some ErrSyntax)
      else (maxUint64, Some ErrRange))"
  using assms(1)
proof (induction p arbitrary: n)
  case Nil
  from assms(2) show ?case by simp
next
  case (Cons d ds)
  let ?n1 = "n * 10 + digitVal d"
  from Cons.prems have d: "isDigit d" and ds: "list_all isDigit ds"
    by simp_all
  have ge: "?n1 \<le> foldl (\<lambda>n c. n * 10 + digitVal c) ?n1 ds"
    by (rule accumulate_ge)
  show ?case
  proof (cases "cutoff \<le> n \<or> maxUint64 < ?n1")
    case True
    then have "maxUint64 < ?n1"
      using cutoff_overflows [of n "digitVal d"] by blast
    with ge have "\<not> foldl (\<lambda>n c. n * 10 + digitVal c) ?n1 ds \<le> maxUint64"
      by simp
    with True d show ?thesis
      by (auto simp: Let_def)
  next
    case False
    with d Cons.IH [OF ds, of ?n1] show ?thesis
      by (auto simp: Let_def)
  qed
qed

lemma ParseUint_digits:
  assumes "ds \<noteq> []" and "list_all isDigit ds"
  shows "ParseUint ds =
     (if parseDigits ds \<le> maxUint64 then (parseDigits ds, None) else (maxUint64, Some ErrRange))"
  using assms by (simp add: ParseUint_def ParseUintLoop_digits parseDigits_def)

lemma ParseUint_nondigit:
  assumes "\<not> list_all isDigit ds"
  shows "ParseUint ds =
     (if parseDigits (takeWhile isDigit ds) \<le> maxUint64 then (0, Some ErrSyntax)
      else (maxUint64, Some ErrRange))"
proof -
  from assms have nonempty: "dropWhile isDigit ds \<noteq> []"
    by (simp add: list_all_iff)
  then obtain c rest where drop: "dropWhile isDigit ds = c # rest"
    by (cases "dropWhile isDigit ds") auto
  then have c: "\<not> isDigit c"
    using hd_dropWhile [OF nonempty] by simp
  have split: "ds = takeWhile isDigit ds @ c # rest"
    using takeWhile_dropWhile_id [of isDigit ds] drop by simp
  have digits: "list_all isDigit (takeWhile isDigit ds)"
    by (auto simp: list_all_iff dest: set_takeWhileD)
  have "ParseUint ds = ParseUintLoop 0 (takeWhile isDigit ds @ c # rest)"
    using split assms by (auto simp: ParseUint_def)
  also have "\<dots> = (if parseDigits (takeWhile isDigit ds) \<le> maxUint64 \<or> takeWhile isDigit ds = []
      then (0, Some ErrSyntax) else (maxUint64, Some ErrRange))"
    by (simp add: ParseUintLoop_nondigit [OF digits c] parseDigits_def)
  also have "\<dots> = (if parseDigits (takeWhile isDigit ds) \<le> maxUint64 then (0, Some ErrSyntax)
      else (maxUint64, Some ErrRange))"
    by (auto simp: parseDigits_def)
  finally show ?thesis .
qed

lemma Atoi_decimal:
  assumes "isDecimal v"
  shows "Atoi v =
     (if maxInt < decimalValue v then (word_of_int maxInt, Some ErrRange)
      else if decimalValue v < minInt then (word_of_int minInt, Some ErrRange)
      else (word_of_int (decimalValue v), None))"
proof -
  obtain neg ds where s: "splitSign v = (neg, ds)"
    by (cases "splitSign v")
  with assms have ds: "ds \<noteq> []" "list_all isDigit ds"
    by (simp_all add: isDecimal_def)
  from s ds have v: "v \<noteq> []"
    by (auto simp: splitSign_def)
  have bounds: "(2::nat) ^ 63 \<le> maxUint64" "(2::nat) ^ 63 < maxUint64"
    by (simp_all add: maxUint64_def)
  show ?thesis
    using bounds
    by (auto simp: Atoi_def ParseInt_def v s ParseUint_digits [OF ds] decimalValue_def
          maxInt_def minInt_def Let_def)
qed

lemma Atoi_not_decimal:
  assumes "\<not> isDecimal v"
  shows "Atoi v =
     (if parseDigits (digitPrefix v) \<le> maxUint64 then (0, Some ErrSyntax)
      else (word_of_int (if fst (splitSign v) then minInt else maxInt), Some ErrRange))"
proof -
  obtain neg ds where s: "splitSign v = (neg, ds)"
    by (cases "splitSign v")
  have bounds: "(2::nat) ^ 63 \<le> maxUint64" "(2::nat) ^ 63 < maxUint64"
    by (simp_all add: maxUint64_def)
  show ?thesis
  proof (cases "v = []")
    case True
    then show ?thesis
      by (simp add: Atoi_def ParseInt_def digitPrefix_def splitSign_def parseDigits_def)
  next
    case v: False
    show ?thesis
    proof (cases "ds = []")
      case True
      with v s show ?thesis
        by (simp add: Atoi_def ParseInt_def ParseUint_def digitPrefix_def parseDigits_def)
    next
      case False
      with assms s have nd: "\<not> list_all isDigit ds"
        by (simp add: isDecimal_def)
      show ?thesis
        using bounds
        by (auto simp: Atoi_def ParseInt_def v s ParseUint_nondigit [OF nd] digitPrefix_def
              Let_def)
    qed
  qed
qed

lemma getRetries_lookup:
  "fst (getRetries s m) =
     (case lookupAttribute m (maxRetriesAttribute s) of None \<Rightarrow> 0 | Some v \<Rightarrow> fst (Atoi v))"
  by (simp add: getRetries_def lookupAttribute_def Let_def split: option.splits)

text \<open>
  What \<^verbatim>\<open>retry\<close> writes, \<^verbatim>\<open>getRetries\<close> reads back: \<^verbatim>\<open>Atoi\<close> inverts \<^verbatim>\<open>Itoa\<close>, and the
  increment in \<^verbatim>\<open>retry\<close> cannot wrap around, since \<^verbatim>\<open>retry\<close> runs only below the
  maximum.
\<close>

lemma digit_cases: "d < 10 \<Longrightarrow> d \<in> {0, 1, 2, 3, 4, 5, 6, 7, 8, 9::nat}"
  by auto

lemma digitVal_digitChar: "d < 10 \<Longrightarrow> digitVal (digitChar d) = d"
  using digit_cases [of d] by (auto simp: digitVal_def digitChar_def)

lemma isDigit_digitChar: "d < 10 \<Longrightarrow> isDigit (digitChar d)"
  using digit_cases [of d] by (auto simp: isDigit_def digitChar_def)

lemma formatNat_digits: "list_all isDigit (formatNat n)"
proof (induction n rule: formatNat.induct)
  case (1 n)
  show ?case
  proof (cases "n < 10")
    case True
    then show ?thesis
      by (subst formatNat.simps) (simp add: isDigit_digitChar)
  next
    case False
    with "1" show ?thesis
      by (subst formatNat.simps) (simp add: isDigit_digitChar)
  qed
qed

lemma formatNat_nonempty: "formatNat n \<noteq> []"
  by (subst formatNat.simps) simp

lemma parseDigits_snoc: "parseDigits (ds @ [c]) = parseDigits ds * 10 + digitVal c"
  by (simp add: parseDigits_def)

lemma parseDigits_formatNat: "parseDigits (formatNat n) = n"
proof (induction n rule: formatNat.induct)
  case (1 n)
  show ?case
  proof (cases "n < 10")
    case True
    then show ?thesis
      by (subst formatNat.simps) (simp add: parseDigits_def digitVal_digitChar)
  next
    case False
    with "1" have "parseDigits (formatNat (n div 10)) = n div 10"
      by simp
    with False show ?thesis
      by (subst formatNat.simps) (simp add: parseDigits_snoc digitVal_digitChar)
  qed
qed

lemma splitSign_digits:
  assumes "list_all isDigit ds"
  shows "splitSign ds = (False, ds)"
proof (cases ds)
  case Nil
  then show ?thesis by (simp add: splitSign_def)
next
  case (Cons c r)
  with assms have "isDigit c" by simp
  then have "c \<noteq> CHR ''-''" "c \<noteq> CHR ''+''"
    by (auto simp: isDigit_def)
  with Cons show ?thesis by (simp add: splitSign_def)
qed

lemma Atoi_Itoa: "Atoi (Itoa i) = (i, None)"
proof -
  have range: "minInt \<le> sint i" "sint i \<le> maxInt"
    using sint_ge [of i] sint_lt [of i] by (simp_all add: minInt_def maxInt_def)
  have "isDecimal (Itoa i) \<and> decimalValue (Itoa i) = sint i"
  proof (cases "sint i < 0")
    case True
    then have s: "splitSign (Itoa i) = (True, formatNat (nat (- sint i)))"
      by (simp add: Itoa_def splitSign_def)
    from True show ?thesis
      by (simp add: isDecimal_def decimalValue_def s formatNat_nonempty formatNat_digits
            parseDigits_formatNat)
  next
    case False
    then have s: "splitSign (Itoa i) = (False, formatNat (nat (sint i)))"
      by (simp add: Itoa_def splitSign_digits formatNat_digits)
    from False show ?thesis
      by (simp add: isDecimal_def decimalValue_def s formatNat_nonempty formatNat_digits
            parseDigits_formatNat)
  qed
  with range show ?thesis
    by (simp add: Atoi_decimal)
qed

lemma increment_below_max:
  assumes "\<not> (mx :: go_int) \<le>s r"
  shows "sint (r + 1) = sint r + 1"
proof -
  have "sint r < sint mx"
    using assms by (simp add: word_sle_eq)
  moreover have "sint mx < 2 ^ 63" "- (2 ^ 63) \<le> sint r"
    using sint_lt [of mx] sint_ge [of r] by simp_all
  ultimately have "- (2 ^ 63) \<le> sint r + 1" "sint r + 1 < 2 ^ 63"
    by simp_all
  then show ?thesis
    by (simp add: sint_word_ariths signed_take_bit_int_eq_self)
qed

lemma getRetries_after_retry:
  "fst (getRetries s (snd (fst (retry s m body st)))) = fst (getRetries s m) + 1"
  by (simp add: retry_result Let_def getRetries_def Atoi_Itoa)

section \<open>The claims\<close>

text \<open>
  C1, what the code does: when the handler panics, the deferred function recovers the
  panic, so none leaves the callback; but the condition it tests is the callback's
  \<^verbatim>\<open>err\<close>, which is still \<^verbatim>\<open>nil\<close>. Nothing is published to the dead-letter topic and
  the message is not acknowledged: the callback ends right after the handler call.
\<close>

theorem C1_handler_panic_is_recovered_and_message_dropped:
  assumes "handleType s (Data m) = Inr body"
    and "fst (handler s body (world st)) = Panics v"
  shows "fst (callback s m st) = None
    \<and> added st (snd (callback s m st))
        = [Log InfoLevel (''processing message '' @ ID m), CallHandler body]
    \<and> filter isCallPublish (added st (snd (callback s m st))) = []
    \<and> filter isCallAck (added st (snd (callback s m st))) = []"
  by (simp add: callback_handler_panics [OF assms] added_def)

text \<open>
  C1 on a handler that panics with \<^verbatim>\<open>index out of range\<close>.
\<close>

theorem C1_failing_input:
  "handleType (orders panickingHandler 5) (Data (delivery ''{}'' None)) = Inr ''{}''
   \<and> fst (handler (orders panickingHandler 5) ''{}'' (world (start []))) = Panics ''index out of range''
   \<and> fst (callback (orders panickingHandler 5) (delivery ''{}'' None) (start [])) = None
   \<and> added (start []) (snd (callback (orders panickingHandler 5) (delivery ''{}'' None) (start [])))
        = [Log InfoLevel ''processing message m1'', CallHandler ''{}'']
   \<and> filter isCallPublish
        (added (start []) (snd (callback (orders panickingHandler 5) (delivery ''{}'' None) (start [])))) = []
   \<and> filter isCallAck
        (added (start []) (snd (callback (orders panickingHandler 5) (delivery ''{}'' None) (start [])))) = []"
proof -
  let ?s = "orders panickingHandler 5" and ?m = "delivery ''{}'' None"
  have h1: "handleType ?s (Data ?m) = Inr ''{}''"
    by (simp add: run_defs)
  have h2: "fst (handler ?s ''{}'' (world (start []))) = Panics ''index out of range''"
    by (simp add: run_defs)
  have names: "ID ?m = ''m1''"
    by (simp add: run_defs)
  from C1_handler_panic_is_recovered_and_message_dropped [OF h1 h2] h1 h2 show ?thesis
    by (simp add: names)
qed

text \<open>
  C2, what the code does: when the handler returned an error and retries remain, the
  retry message is published to the same topic with the deserialized body and the
  retry-count attribute set to the decimal form of the prior count plus one (the
  increment does not wrap, and \<^verbatim>\<open>Atoi\<close> reads the count back). Then the deferred
  function publishes the raw payload to the dead-letter topic as well (when the
  topic could be ensured) and acknowledges a second time. Two messages are
  published, not one.
\<close>

theorem C2_retried_message_is_also_dead_lettered:
  assumes "handleType s (Data m) = Inr body"
    and "fst (handler s body (world st)) = Returns (Some e)"
    and "\<not> maxRetries s \<le>s fst (getRetries s m)"
    and "attrs = (case Attributes m of None \<Rightarrow> Map.empty | Some a \<Rightarrow> a)
                   (maxRetriesAttribute s \<mapsto> Itoa (fst (getRetries s m) + 1))"
    and "w = snd (PublishWihAttribrutes (client s) (topicID s) (Body body) attrs
                    (snd (handler s body (world st))))"
    and "snd (fst (createTopicIfNotExists (client s) (dlqTopic s) w)) = None"
  shows "filter isCallPublish (added st (snd (callback s m st)))
        = [CallPublish (topicID s) (Body body) attrs,
           CallPublish (dlqTopic s) (Raw (Data m)) [''error'' \<mapsto> Error e]]
    \<and> attrs (maxRetriesAttribute s) = Some (Itoa (fst (getRetries s m) + 1))
    \<and> fst (Atoi (Itoa (fst (getRetries s m) + 1))) = fst (getRetries s m) + 1
    \<and> sint (fst (getRetries s m) + 1) = sint (fst (getRetries s m)) + 1
    \<and> filter isCallAck (added st (snd (callback s m st))) = [CallAck (ID m), CallAck (ID m)]"
proof -
  define st0 where "st0 = \<lparr>world = snd (handler s body (world st)),
      trace = trace st @ [Log InfoLevel (''processing message '' @ ID m), CallHandler body]\<rparr>"
  have st0: "world st0 = snd (handler s body (world st))"
    "trace st0 = trace st @ [Log InfoLevel (''processing message '' @ ID m), CallHandler body]"
    by (simp_all add: st0_def)
  have wc: "world (snd (classify s m body e st0)) = w"
    by (simp add: world_classify_retrying [OF assms(3)] assms(4,5) st0)
  have ens: "snd (fst (createTopicIfNotExists (client s) (dlqTopic s)
                         (world (snd (classify s m body e st0))))) = None"
    by (simp only: wc assms(6))
  have "trace (snd (callback s m st)) = trace st @
      ([Log InfoLevel (''processing message '' @ ID m), CallHandler body,
        Log ErrorLevel (''error processing message '' @ ID m),
        CallPublish (topicID s) (Body body) attrs]
       @ (case fst (fst (retry s (snd (getRetries s m)) body
                     (emit (Log ErrorLevel (''error processing message '' @ ID m)) st0))) of
            None \<Rightarrow> []
          | Some _ \<Rightarrow> [Log ErrorLevel (''error retrying message '' @ ID m)])
       @ [Log InfoLevel (''sending ack to message '' @ ID m), CallAck (ID m),
          Log WarnLevel (''consumer panicked with message '' @ ID m @ '' - sending to dlq''),
          Log InfoLevel (''sending message '' @ ID m @ '' to '' @ dlqTopic s),
          CallCreateTopicIfNotExists (dlqTopic s),
          CallPublish (dlqTopic s) (Raw (Data m)) [''error'' \<mapsto> Error e],
          CallAck (ID m)])"
    unfolding callback_handler_error(2) [OF assms(1,2) st0_def] ens
      classify_retrying [OF assms(3), of body e st0] st0(2) assms(4)
    by simp
  from added_append [OF this] increment_below_max [OF assms(3)] show ?thesis
    by (simp add: assms(4) Atoi_Itoa split: option.splits)
qed

text \<open>
  C2 on topic \<^verbatim>\<open>orders\<close>, a maximum of 2 and a first delivery: the whole trace of the
  callback.
\<close>

theorem C2_failing_input:
  "added (start []) (snd (callback (orders failingHandler 2) (delivery ''{}'' None) (start [])))
     = [Log InfoLevel ''processing message m1'',
        CallHandler ''{}'',
        Log ErrorLevel ''error processing message m1'',
        CallPublish ''orders'' (Body ''{}'') [''retries'' \<mapsto> ''1''],
        Log InfoLevel ''sending ack to message m1'',
        CallAck ''m1'',
        Log WarnLevel ''consumer panicked with message m1 - sending to dlq'',
        Log InfoLevel ''sending message m1 to orders_dlq'',
        CallCreateTopicIfNotExists ''orders_dlq'',
        CallPublish ''orders_dlq'' (Raw ''{}'') [''error'' \<mapsto> ''boom''],
        CallAck ''m1'']
   \<and> filter isCallPublish
        (added (start []) (snd (callback (orders failingHandler 2) (delivery ''{}'' None) (start []))))
     = [CallPublish ''orders'' (Body ''{}'') [''retries'' \<mapsto> ''1''],
        CallPublish ''orders_dlq'' (Raw ''{}'') [''error'' \<mapsto> ''boom'']]"
proof -
  let ?s = "orders failingHandler 2" and ?m = "delivery ''{}'' None"
  let ?attrs = "(case Attributes ?m of None \<Rightarrow> Map.empty | Some a \<Rightarrow> a)
                   (maxRetriesAttribute ?s \<mapsto> Itoa (fst (getRetries ?s ?m) + 1))"
  let ?w = "snd (PublishWihAttribrutes (client ?s) (topicID ?s) (Body ''{}'') ?attrs
                    (snd (handler ?s ''{}'' (world (start [])))))"
  have h1: "handleType ?s (Data ?m) = Inr ''{}''"
    by (simp add: run_defs)
  have h2: "fst (handler ?s ''{}'' (world (start []))) = Returns (Some (errorNew ''boom''))"
    by (simp add: run_defs)
  have h3: "\<not> maxRetries ?s \<le>s fst (getRetries ?s ?m)"
    by (simp add: run_defs)
  have h6: "snd (fst (createTopicIfNotExists (client ?s) (dlqTopic ?s) ?w)) = None"
    by (simp add: run_defs)
  have attrs: "?attrs = [''retries'' \<mapsto> ''1'']"
    by (simp add: run_defs itoa_defs)
  have names: "dlqTopic ?s = ''orders_dlq''" "topicID ?s = ''orders''" "Data ?m = ''{}''"
    by (simp_all add: run_defs)
  have full: "added (start []) (snd (callback ?s ?m (start [])))
     = [Log InfoLevel ''processing message m1'',
        CallHandler ''{}'',
        Log ErrorLevel ''error processing message m1'',
        CallPublish ''orders'' (Body ''{}'') [''retries'' \<mapsto> ''1''],
        Log InfoLevel ''sending ack to message m1'',
        CallAck ''m1'',
        Log WarnLevel ''consumer panicked with message m1 - sending to dlq'',
        Log InfoLevel ''sending message m1 to orders_dlq'',
        CallCreateTopicIfNotExists ''orders_dlq'',
        CallPublish ''orders_dlq'' (Raw ''{}'') [''error'' \<mapsto> ''boom''],
        CallAck ''m1'']"
    by (simp add: run_defs atoi_defs itoa_defs)
  from C2_retried_message_is_also_dead_lettered [OF h1 h2 h3 refl refl h6]
  have "filter isCallPublish (added (start []) (snd (callback ?s ?m (start []))))
        = [CallPublish (topicID ?s) (Body ''{}'') ?attrs,
           CallPublish (dlqTopic ?s) (Raw (Data ?m)) [''error'' \<mapsto> Error (errorNew ''boom'')]]"
    by (elim conjE)
  then have pubs: "filter isCallPublish (added (start []) (snd (callback ?s ?m (start []))))
     = [CallPublish ''orders'' (Body ''{}'') [''retries'' \<mapsto> ''1''],
        CallPublish ''orders_dlq'' (Raw ''{}'') [''error'' \<mapsto> ''boom'']]"
    by (simp only: attrs names error.sel)
  from full pubs show ?thesis by (intro conjI)
qed

text \<open>
  C3, what the code does: when the handler returned an error and the retry count has
  reached the maximum, nothing is published to the original topic, but the raw
  payload is published to the dead-letter topic twice (whenever the topic could be
  ensured both times): once by the classification, once by the deferred function.
\<close>

theorem C3_exhausted_message_is_dead_lettered_twice:
  assumes "handleType s (Data m) = Inr body"
    and "fst (handler s body (world st)) = Returns (Some e)"
    and "maxRetries s \<le>s fst (getRetries s m)"
    and "snd (fst (createTopicIfNotExists (client s) (dlqTopic s) (snd (handler s body (world st))))) = None"
    and "w = snd (PublishWihAttribrutes (client s) (dlqTopic s) (Raw (Data m)) [''error'' \<mapsto> Error e]
                    (snd (createTopicIfNotExists (client s) (dlqTopic s) (snd (handler s body (world st))))))"
    and "snd (fst (createTopicIfNotExists (client s) (dlqTopic s) w)) = None"
  shows "filter isCallPublish (added st (snd (callback s m st)))
        = [CallPublish (dlqTopic s) (Raw (Data m)) [''error'' \<mapsto> Error e],
           CallPublish (dlqTopic s) (Raw (Data m)) [''error'' \<mapsto> Error e]]
    \<and> filter isCallAck (added st (snd (callback s m st))) = [CallAck (ID m), CallAck (ID m)]"
proof -
  define st0 where "st0 = \<lparr>world = snd (handler s body (world st)),
      trace = trace st @ [Log InfoLevel (''processing message '' @ ID m), CallHandler body]\<rparr>"
  define st1 where "st1 = emit (Log ErrorLevel (''error processing message '' @ ID m)) st0"
  have st0: "world st0 = snd (handler s body (world st))"
    "trace st0 = trace st @ [Log InfoLevel (''processing message '' @ ID m), CallHandler body]"
    by (simp_all add: st0_def)
  have st1: "world st1 = snd (handler s body (world st))"
    by (simp add: st1_def emit_def st0)
  have ens1: "snd (fst (createTopicIfNotExists (client s) (dlqTopic s) (world st0))) = None"
    by (simp only: st0 assms(4))
  have ens1': "snd (fst (createTopicIfNotExists (client s) (dlqTopic s) (world st1))) = None"
    by (simp only: st1 assms(4))
  have wc: "world (snd (classify s m body e st0)) = w"
    unfolding world_classify_exhausted [OF assms(3)] st1_def [symmetric]
    by (simp add: world_dlq_ensured [OF ens1'] st1 assms(5))
  have ens2: "snd (fst (createTopicIfNotExists (client s) (dlqTopic s)
                          (world (snd (classify s m body e st0))))) = None"
    by (simp only: wc assms(6))
  have "trace (snd (callback s m st)) = trace st @
      ([Log InfoLevel (''processing message '' @ ID m), CallHandler body,
        Log ErrorLevel (''error processing message '' @ ID m),
        Log InfoLevel (''sending message '' @ ID m @ '' to '' @ dlqTopic s),
        CallCreateTopicIfNotExists (dlqTopic s),
        CallPublish (dlqTopic s) (Raw (Data m)) [''error'' \<mapsto> Error e]]
       @ (case fst (dlq s (snd (getRetries s m)) e
                      (emit (Log ErrorLevel (''error processing message '' @ ID m)) st0)) of
            None \<Rightarrow> []
          | Some _ \<Rightarrow> [Log ErrorLevel (''error sending message '' @ ID m @ '' to dlq'')])
       @ [Log InfoLevel (''sending ack to message '' @ ID m), CallAck (ID m),
          Log WarnLevel (''consumer panicked with message '' @ ID m @ '' - sending to dlq''),
          Log InfoLevel (''sending message '' @ ID m @ '' to '' @ dlqTopic s),
          CallCreateTopicIfNotExists (dlqTopic s),
          CallPublish (dlqTopic s) (Raw (Data m)) [''error'' \<mapsto> Error e],
          CallAck (ID m)])"
    unfolding callback_handler_error(2) [OF assms(1,2) st0_def] ens2
      classify_exhausted [OF assms(3), of body e st0] ens1 st0(2)
    by simp
  from added_append [OF this] show ?thesis
    by (simp split: option.splits)
qed

text \<open>
  C3 on topic \<^verbatim>\<open>orders\<close>, a maximum of 2 and \<^verbatim>\<open>retries = "2"\<close>: the whole trace of the
  callback.
\<close>

theorem C3_failing_input:
  "added (start [])
     (snd (callback (orders failingHandler 2) (delivery ''{}'' (Some [''retries'' \<mapsto> ''2''])) (start [])))
     = [Log InfoLevel ''processing message m1'',
        CallHandler ''{}'',
        Log ErrorLevel ''error processing message m1'',
        Log InfoLevel ''sending message m1 to orders_dlq'',
        CallCreateTopicIfNotExists ''orders_dlq'',
        CallPublish ''orders_dlq'' (Raw ''{}'') [''error'' \<mapsto> ''boom''],
        Log InfoLevel ''sending ack to message m1'',
        CallAck ''m1'',
        Log WarnLevel ''consumer panicked with message m1 - sending to dlq'',
        Log InfoLevel ''sending message m1 to orders_dlq'',
        CallCreateTopicIfNotExists ''orders_dlq'',
        CallPublish ''orders_dlq'' (Raw ''{}'') [''error'' \<mapsto> ''boom''],
        CallAck ''m1'']
   \<and> filter isCallPublish (added (start [])
        (snd (callback (orders failingHandler 2) (delivery ''{}'' (Some [''retries'' \<mapsto> ''2''])) (start []))))
     = [CallPublish ''orders_dlq'' (Raw ''{}'') [''error'' \<mapsto> ''boom''],
        CallPublish ''orders_dlq'' (Raw ''{}'') [''error'' \<mapsto> ''boom'']]"
proof -
  let ?s = "orders failingHandler 2" and ?m = "delivery ''{}'' (Some [''retries'' \<mapsto> ''2''])"
  let ?wh = "snd (handler ?s ''{}'' (world (start [])))"
  let ?w = "snd (PublishWihAttribrutes (client ?s) (dlqTopic ?s) (Raw (Data ?m))
                   [''error'' \<mapsto> Error (errorNew ''boom'')]
                   (snd (createTopicIfNotExists (client ?s) (dlqTopic ?s) ?wh)))"
  have h1: "handleType ?s (Data ?m) = Inr ''{}''"
    by (simp add: run_defs)
  have h2: "fst (handler ?s ''{}'' (world (start []))) = Returns (Some (errorNew ''boom''))"
    by (simp add: run_defs)
  have h3: "maxRetries ?s \<le>s fst (getRetries ?s ?m)"
    by (simp add: run_defs atoi_defs)
  have h4: "snd (fst (createTopicIfNotExists (client ?s) (dlqTopic ?s) ?wh)) = None"
    by (simp add: run_defs)
  have h6: "snd (fst (createTopicIfNotExists (client ?s) (dlqTopic ?s) ?w)) = None"
    by (simp add: run_defs)
  have names: "dlqTopic ?s = ''orders_dlq''" "Data ?m = ''{}''"
    by (simp_all add: run_defs)
  have full: "added (start []) (snd (callback ?s ?m (start [])))
     = [Log InfoLevel ''processing message m1'',
        CallHandler ''{}'',
        Log ErrorLevel ''error processing message m1'',
        Log InfoLevel ''sending message m1 to orders_dlq'',
        CallCreateTopicIfNotExists ''orders_dlq'',
        CallPublish ''orders_dlq'' (Raw ''{}'') [''error'' \<mapsto> ''boom''],
        Log InfoLevel ''sending ack to message m1'',
        CallAck ''m1'',
        Log WarnLevel ''consumer panicked with message m1 - sending to dlq'',
        Log InfoLevel ''sending message m1 to orders_dlq'',
        CallCreateTopicIfNotExists ''orders_dlq'',
        CallPublish ''orders_dlq'' (Raw ''{}'') [''error'' \<mapsto> ''boom''],
        CallAck ''m1'']"
    by (simp add: run_defs atoi_defs itoa_defs)
  from C3_exhausted_message_is_dead_lettered_twice [OF h1 h2 h3 h4 refl h6]
  have "filter isCallPublish (added (start []) (snd (callback ?s ?m (start []))))
        = [CallPublish (dlqTopic ?s) (Raw (Data ?m)) [''error'' \<mapsto> Error (errorNew ''boom'')],
           CallPublish (dlqTopic ?s) (Raw (Data ?m)) [''error'' \<mapsto> Error (errorNew ''boom'')]]"
    by (elim conjE)
  then have pubs: "filter isCallPublish (added (start []) (snd (callback ?s ?m (start []))))
     = [CallPublish ''orders_dlq'' (Raw ''{}'') [''error'' \<mapsto> ''boom''],
        CallPublish ''orders_dlq'' (Raw ''{}'') [''error'' \<mapsto> ''boom'']]"
    by (simp only: names error.sel)
  from full pubs show ?thesis by (intro conjI)
qed

text \<open>
  C4 as the code has it. When the payload deserializes and the handler returns an
  error, the statements of the callback end without a panic, with \<^verbatim>\<open>err\<close> holding the
  handler's error, after the retry or dead-letter step and \<^verbatim>\<open>Ack\<close>. The deferred
  function then runs with no panic to recover, finds \<^verbatim>\<open>err\<close> set, logs a warning and
  calls \<^verbatim>\<open>dlq\<close> with the raw payload and the handler's error. If
  \<^verbatim>\<open>createTopicIfNotExists\<close> succeeds for the dead-letter topic, the producer is given
  the raw payload for that topic and the outside world is what the producer leaves;
  if it fails, nothing is published. Either way \<^verbatim>\<open>Ack\<close> is called on the same message
  a second time, and no panic leaves the callback.
\<close>

theorem C4_deferred_dlq_after_handler_error:
  assumes "handleType s (Data m) = Inr body"
    and "fst (handler s body (world st)) = Returns (Some e)"
    and "callbackBody s m body st = ((p, err, m'), st1)"
  shows "p = None \<and> err = Some e
    \<and> (\<exists>main. trace st1 = trace st @ main @ [CallAck (ID m)]
          \<and> (CallCreateTopicIfNotExists (dlqTopic s) \<in> set main
               \<or> (\<exists>a. CallPublish (topicID s) (Body body) a \<in> set main)))
    \<and> callback s m st = callbackDeferred s m' err p st1
    \<and> fst (callback s m st) = None
    \<and> (snd (fst (createTopicIfNotExists (client s) (dlqTopic s) (world st1))) = None \<longrightarrow>
          added st1 (snd (callback s m st)) =
            [Log WarnLevel (''consumer panicked with message '' @ ID m @ '' - sending to dlq''),
             Log InfoLevel (''sending message '' @ ID m @ '' to '' @ dlqTopic s),
             CallCreateTopicIfNotExists (dlqTopic s),
             CallPublish (dlqTopic s) (Raw (Data m)) [''error'' \<mapsto> Error e],
             CallAck (ID m)]
        \<and> world (snd (callback s m st)) =
            snd (PublishWihAttribrutes (client s) (dlqTopic s) (Raw (Data m))
                   [''error'' \<mapsto> Error e]
                   (snd (createTopicIfNotExists (client s) (dlqTopic s) (world st1)))))
    \<and> (snd (fst (createTopicIfNotExists (client s) (dlqTopic s) (world st1))) \<noteq> None \<longrightarrow>
          added st1 (snd (callback s m st)) =
            [Log WarnLevel (''consumer panicked with message '' @ ID m @ '' - sending to dlq''),
             Log InfoLevel (''sending message '' @ ID m @ '' to '' @ dlqTopic s),
             CallCreateTopicIfNotExists (dlqTopic s),
             CallAck (ID m)]
        \<and> world (snd (callback s m st)) =
            snd (createTopicIfNotExists (client s) (dlqTopic s) (world st1)))"
proof -
  define st0 where "st0 = \<lparr>world = snd (handler s body (world st)),
      trace = trace st @ [Log InfoLevel (''processing message '' @ ID m), CallHandler body]\<rparr>"
  from assms(2,3) have p: "p = None" and err: "err = Some e"
    and m': "m' = fst (classify s m body e st0)"
    and st1: "st1 = emit (CallAck (ID m)) (emit (Log InfoLevel (''sending ack to message '' @ ID m))
                      (snd (classify s m body e st0)))"
    by (simp_all add: callbackBody_error st0_def)
  obtain xs where xs: "trace (snd (classify s m body e st0)) =
        trace st0 @ Log ErrorLevel (''error processing message '' @ ID m) # xs"
    and pub: "CallCreateTopicIfNotExists (dlqTopic s) \<in> set xs
        \<or> (\<exists>a. CallPublish (topicID s) (Body body) a \<in> set xs)"
    using trace_classify_prefix [of s m body e st0] by blast
  let ?main = "[Log InfoLevel (''processing message '' @ ID m), CallHandler body,
                Log ErrorLevel (''error processing message '' @ ID m)] @ xs
               @ [Log InfoLevel (''sending ack to message '' @ ID m)]"
  have main: "trace st1 = trace st @ ?main @ [CallAck (ID m)]"
    using xs by (simp add: st1 emit_def st0_def)
  have main_pub: "CallCreateTopicIfNotExists (dlqTopic s) \<in> set ?main
               \<or> (\<exists>a. CallPublish (topicID s) (Body body) a \<in> set ?main)"
    using pub by auto
  have cb: "callback s m st = callbackDeferred s m' err p st1"
    by (simp add: callback_def assms(1,3))
  have ids: "ID m' = ID m" "Data m' = Data m"
    by (simp_all add: m')
  define st2 where "st2 = emit (Log WarnLevel
      (''consumer panicked with message '' @ ID m @ '' - sending to dlq'')) st1"
  have st2: "world st2 = world st1"
    "trace st2 = trace st1 @ [Log WarnLevel
       (''consumer panicked with message '' @ ID m @ '' - sending to dlq'')]"
    by (simp_all add: st2_def emit_def)
  have deferred: "snd (callback s m st) = emit (CallAck (ID m)) (snd (dlq s m' e st2))"
    and fin: "fst (callback s m st) = None"
    by (simp_all add: cb err callbackDeferred_error ids st2_def)
  have ok: "added st1 (snd (callback s m st)) =
            [Log WarnLevel (''consumer panicked with message '' @ ID m @ '' - sending to dlq''),
             Log InfoLevel (''sending message '' @ ID m @ '' to '' @ dlqTopic s),
             CallCreateTopicIfNotExists (dlqTopic s),
             CallPublish (dlqTopic s) (Raw (Data m)) [''error'' \<mapsto> Error e],
             CallAck (ID m)]
        \<and> world (snd (callback s m st)) =
            snd (PublishWihAttribrutes (client s) (dlqTopic s) (Raw (Data m))
                   [''error'' \<mapsto> Error e]
                   (snd (createTopicIfNotExists (client s) (dlqTopic s) (world st1))))"
    if "snd (fst (createTopicIfNotExists (client s) (dlqTopic s) (world st1))) = None"
  proof -
    from that have "snd (fst (createTopicIfNotExists (client s) (dlqTopic s) (world st2))) = None"
      by (simp only: st2)
    from dlq_ensure_ok [OF this, of m' e] show ?thesis
      unfolding deferred by (simp add: added_def emit_def st2 ids)
  qed
  have failed: "added st1 (snd (callback s m st)) =
            [Log WarnLevel (''consumer panicked with message '' @ ID m @ '' - sending to dlq''),
             Log InfoLevel (''sending message '' @ ID m @ '' to '' @ dlqTopic s),
             CallCreateTopicIfNotExists (dlqTopic s),
             CallAck (ID m)]
        \<and> world (snd (callback s m st)) =
            snd (createTopicIfNotExists (client s) (dlqTopic s) (world st1))"
    if "snd (fst (createTopicIfNotExists (client s) (dlqTopic s) (world st1))) \<noteq> None"
  proof -
    from that obtain e' where
      "snd (fst (createTopicIfNotExists (client s) (dlqTopic s) (world st2))) = Some e'"
      by (auto simp: st2)
    from dlq_ensure_fails [OF this, of m' e] show ?thesis
      unfolding deferred by (simp add: added_def emit_def st2 ids)
  qed
  from p err main main_pub cb fin ok failed show ?thesis by blast
qed

text \<open>
  C4 as stated fails: when the dead-letter topic \<^verbatim>\<open>orders_dlq\<close> cannot be ensured, the
  deferred function logs, asks for the topic and acknowledges, and publishes nothing;
  the only message the callback publishes is the retry.
\<close>

theorem C4_counterexample:
  "handleType (orders failingHandler 2) (Data (delivery ''{}'' None)) = Inr ''{}''
   \<and> fst (handler (orders failingHandler 2) ''{}'' (world (start [''orders_dlq''])))
        = Returns (Some (errorNew ''boom''))
   \<and> added (snd (callbackBody (orders failingHandler 2) (delivery ''{}'' None) ''{}''
                    (start [''orders_dlq''])))
         (snd (callback (orders failingHandler 2) (delivery ''{}'' None) (start [''orders_dlq''])))
       = [Log WarnLevel ''consumer panicked with message m1 - sending to dlq'',
          Log InfoLevel ''sending message m1 to orders_dlq'',
          CallCreateTopicIfNotExists ''orders_dlq'',
          CallAck ''m1'']
   \<and> filter isCallPublish (added (start [''orders_dlq''])
         (snd (callback (orders failingHandler 2) (delivery ''{}'' None) (start [''orders_dlq'']))))
       = [CallPublish ''orders'' (Body ''{}'') [''retries'' \<mapsto> ''1'']]
   \<and> outbox (world (snd (callback (orders failingHandler 2) (delivery ''{}'' None)
                            (start [''orders_dlq'']))))
       = [(''orders'', Body ''{}'', [''retries'' \<mapsto> ''1''])]"
  by (simp add: run_defs atoi_defs itoa_defs)

text \<open>
  C4 on a transport where everything succeeds: the deferred function publishes the
  raw payload to \<^verbatim>\<open>orders_dlq\<close>, after the retry, and both messages are in the outbox.
\<close>

theorem C4_witness:
  "handleType (orders failingHandler 2) (Data (delivery ''{}'' None)) = Inr ''{}''
   \<and> fst (handler (orders failingHandler 2) ''{}'' (world (start []))) = Returns (Some (errorNew ''boom''))
   \<and> fst (callback (orders failingHandler 2) (delivery ''{}'' None) (start [])) = None
   \<and> added (snd (callbackBody (orders failingHandler 2) (delivery ''{}'' None) ''{}'' (start [])))
         (snd (callback (orders failingHandler 2) (delivery ''{}'' None) (start []))) =
       [Log WarnLevel ''consumer panicked with message m1 - sending to dlq'',
        Log InfoLevel ''sending message m1 to orders_dlq'',
        CallCreateTopicIfNotExists ''orders_dlq'',
        CallPublish ''orders_dlq'' (Raw ''{}'') [''error'' \<mapsto> ''boom''],
        CallAck ''m1'']
   \<and> outbox (world (snd (callback (orders failingHandler 2) (delivery ''{}'' None) (start []))))
       = [(''orders'', Body ''{}'', [''retries'' \<mapsto> ''1'']),
          (''orders_dlq'', Raw ''{}'', [''error'' \<mapsto> ''boom''])]"
proof -
  let ?s = "orders failingHandler 2" and ?m = "delivery ''{}'' None"
  let ?r = "callbackBody ?s ?m ''{}'' (start [])"
  have h1: "handleType ?s (Data ?m) = Inr ''{}''"
    by (simp add: run_defs)
  have h2: "fst (handler ?s ''{}'' (world (start []))) = Returns (Some (errorNew ''boom''))"
    by (simp add: run_defs)
  have h3: "?r = ((fst (fst ?r), fst (snd (fst ?r)), snd (snd (fst ?r))), snd ?r)"
    by simp
  have w: "snd (fst (createTopicIfNotExists (client ?s) (dlqTopic ?s) (world (snd ?r)))) = None"
    by (simp add: run_defs atoi_defs itoa_defs)
  have names: "dlqTopic ?s = ''orders_dlq''" "ID ?m = ''m1''" "Data ?m = ''{}''"
    by (simp_all add: run_defs)
  have after: "snd (PublishWihAttribrutes (client ?s) (dlqTopic ?s) (Raw (Data ?m))
                   [''error'' \<mapsto> Error (errorNew ''boom'')]
                   (snd (createTopicIfNotExists (client ?s) (dlqTopic ?s) (world (snd ?r)))))
       = \<lparr>topics = [''orders_dlq''], subscriptions = [],
          outbox = [(''orders'', Body ''{}'', [''retries'' \<mapsto> ''1'']),
                    (''orders_dlq'', Raw ''{}'', [''error'' \<mapsto> ''boom''])],
          unreachable = []\<rparr>"
    by (simp add: run_defs atoi_defs itoa_defs)
  note c = C4_deferred_dlq_after_handler_error [OF h1 h2 h3]
  from c have a: "fst (callback ?s ?m (start [])) = None"
    by (elim conjE)
  from c w have "added (snd ?r) (snd (callback ?s ?m (start []))) =
      [Log WarnLevel (''consumer panicked with message '' @ ID ?m @ '' - sending to dlq''),
       Log InfoLevel (''sending message '' @ ID ?m @ '' to '' @ dlqTopic ?s),
       CallCreateTopicIfNotExists (dlqTopic ?s),
       CallPublish (dlqTopic ?s) (Raw (Data ?m)) [''error'' \<mapsto> Error (errorNew ''boom'')],
       CallAck (ID ?m)]"
    by blast
  then have b: "added (snd ?r) (snd (callback ?s ?m (start []))) =
       [Log WarnLevel ''consumer panicked with message m1 - sending to dlq'',
        Log InfoLevel ''sending message m1 to orders_dlq'',
        CallCreateTopicIfNotExists ''orders_dlq'',
        CallPublish ''orders_dlq'' (Raw ''{}'') [''error'' \<mapsto> ''boom''],
        CallAck ''m1'']"
    by (simp add: names)
  from c w have "world (snd (callback ?s ?m (start []))) =
      snd (PublishWihAttribrutes (client ?s) (dlqTopic ?s) (Raw (Data ?m))
             [''error'' \<mapsto> Error (errorNew ''boom'')]
             (snd (createTopicIfNotExists (client ?s) (dlqTopic ?s) (world (snd ?r)))))"
    by blast
  then have d: "outbox (world (snd (callback ?s ?m (start []))))
       = [(''orders'', Body ''{}'', [''retries'' \<mapsto> ''1'']),
          (''orders_dlq'', Raw ''{}'', [''error'' \<mapsto> ''boom''])]"
    by (simp only: after broker.simps)
  from h1 h2 a b d show ?thesis by (intro conjI)
qed

text \<open>
  C5 as the code has it. When the payload does not deserialize, the callback returns
  without a panic, calls \<^verbatim>\<open>Ack\<close> exactly once, never calls the handler, and publishes
  nothing but the dead-letter message, so no retry. If \<^verbatim>\<open>createTopicIfNotExists\<close>
  succeeds for the dead-letter topic, the producer is given the raw payload, with the
  parse error under \<^verbatim>\<open>"error"\<close>, for the dead-letter topic, and the outside world is
  what the producer leaves; if it fails, nothing is published.
\<close>

theorem C5_unmarshal_failure_dead_letters_raw_payload:
  assumes "handleType s (Data m) = Inl e"
  shows "fst (callback s m st) = None
    \<and> filter isCallAck (added st (snd (callback s m st))) = [CallAck (ID m)]
    \<and> filter isCallHandler (added st (snd (callback s m st))) = []
    \<and> set (filter isCallPublish (added st (snd (callback s m st))))
         \<subseteq> {CallPublish (dlqTopic s) (Raw (Data m)) [''error'' \<mapsto> Error e]}
    \<and> (snd (fst (createTopicIfNotExists (client s) (dlqTopic s) (world st))) = None \<longrightarrow>
         added st (snd (callback s m st)) =
           [Log ErrorLevel (''cannot unmarshal message '' @ ID m @ '' - sending to dlq''),
            Log InfoLevel (''sending message '' @ ID m @ '' to '' @ dlqTopic s),
            CallCreateTopicIfNotExists (dlqTopic s),
            CallPublish (dlqTopic s) (Raw (Data m)) [''error'' \<mapsto> Error e],
            CallAck (ID m)]
       \<and> world (snd (callback s m st)) =
           snd (PublishWihAttribrutes (client s) (dlqTopic s) (Raw (Data m))
                  [''error'' \<mapsto> Error e]
                  (snd (createTopicIfNotExists (client s) (dlqTopic s) (world st)))))
    \<and> (snd (fst (createTopicIfNotExists (client s) (dlqTopic s) (world st))) \<noteq> None \<longrightarrow>
         added st (snd (callback s m st)) =
           [Log ErrorLevel (''cannot unmarshal message '' @ ID m @ '' - sending to dlq''),
            Log InfoLevel (''sending message '' @ ID m @ '' to '' @ dlqTopic s),
            CallCreateTopicIfNotExists (dlqTopic s),
            CallAck (ID m)]
       \<and> world (snd (callback s m st)) =
           snd (createTopicIfNotExists (client s) (dlqTopic s) (world st)))"
proof -
  define st1 where "st1 = emit (Log ErrorLevel
      (''cannot unmarshal message '' @ ID m @ '' - sending to dlq'')) st"
  have st1: "world st1 = world st"
    "trace st1 = trace st @ [Log ErrorLevel
       (''cannot unmarshal message '' @ ID m @ '' - sending to dlq'')]"
    by (simp_all add: st1_def emit_def)
  have cb: "snd (callback s m st) = emit (CallAck (ID m)) (snd (dlq s m e st1))"
    and res: "fst (callback s m st) = None"
    using assms by (simp_all add: callback_def Let_def split_def st1_def)
  show ?thesis
  proof (cases "snd (fst (createTopicIfNotExists (client s) (dlqTopic s) (world st)))")
    case None
    then have "snd (fst (createTopicIfNotExists (client s) (dlqTopic s) (world st1))) = None"
      by (simp only: st1)
    from dlq_ensure_ok [OF this, of m e] None res show ?thesis
      unfolding cb by (simp add: added_def emit_def st1)
  next
    case (Some e')
    then have "snd (fst (createTopicIfNotExists (client s) (dlqTopic s) (world st1))) = Some e'"
      by (simp only: st1)
    from dlq_ensure_fails [OF this, of m e] Some res show ?thesis
      unfolding cb by (simp add: added_def emit_def st1)
  qed
qed

text \<open>
  C5 as stated fails: when the dead-letter topic \<^verbatim>\<open>orders_dlq\<close> cannot be ensured, the
  payload \<^verbatim>\<open>not-json\<close> is acknowledged and published nowhere.
\<close>

theorem C5_counterexample:
  "handleType (orders succeedingHandler 5) (Data (delivery ''not-json'' None))
     = Inl (errorNew ''invalid character 'o' in literal null (expecting 'u')'')
   \<and> added (start [''orders_dlq''])
        (snd (callback (orders succeedingHandler 5) (delivery ''not-json'' None)
                (start [''orders_dlq''])))
       = [Log ErrorLevel ''cannot unmarshal message m1 - sending to dlq'',
          Log InfoLevel ''sending message m1 to orders_dlq'',
          CallCreateTopicIfNotExists ''orders_dlq'',
          CallAck ''m1'']
   \<and> outbox (world (snd (callback (orders succeedingHandler 5) (delivery ''not-json'' None)
                            (start [''orders_dlq'']))))
       = []"
  by (simp add: run_defs)

text \<open>
  C5 on a transport where everything succeeds: the payload \<^verbatim>\<open>not-json\<close> reaches
  \<^verbatim>\<open>orders_dlq\<close> as it came, with the parse error as its attribute.
\<close>

theorem C5_witness:
  "handleType (orders succeedingHandler 5) (Data (delivery ''not-json'' None))
     = Inl (errorNew ''invalid character 'o' in literal null (expecting 'u')'')
   \<and> fst (callback (orders succeedingHandler 5) (delivery ''not-json'' None) (start [])) = None
   \<and> added (start []) (snd (callback (orders succeedingHandler 5) (delivery ''not-json'' None) (start []))) =
       [Log ErrorLevel ''cannot unmarshal message m1 - sending to dlq'',
        Log InfoLevel ''sending message m1 to orders_dlq'',
        CallCreateTopicIfNotExists ''orders_dlq'',
        CallPublish ''orders_dlq'' (Raw ''not-json'')
          [''error'' \<mapsto> ''invalid character 'o' in literal null (expecting 'u')''],
        CallAck ''m1'']
   \<and> outbox (world (snd (callback (orders succeedingHandler 5) (delivery ''not-json'' None) (start []))))
       = [(''orders_dlq'', Raw ''not-json'',
           [''error'' \<mapsto> ''invalid character 'o' in literal null (expecting 'u')''])]"
proof -
  let ?s = "orders succeedingHandler 5" and ?m = "delivery ''not-json'' None"
  let ?e = "errorNew ''invalid character 'o' in literal null (expecting 'u')''"
  have h: "handleType ?s (Data ?m) = Inl ?e"
    by (simp add: run_defs)
  have names: "dlqTopic ?s = ''orders_dlq''" "ID ?m = ''m1''" "Data ?m = ''not-json''"
    by (simp_all add: run_defs)
  have w: "snd (fst (createTopicIfNotExists (client ?s) (dlqTopic ?s) (world (start [])))) = None"
    by (simp add: run_defs)
  have after: "snd (PublishWihAttribrutes (client ?s) (dlqTopic ?s) (Raw (Data ?m))
                  [''error'' \<mapsto> Error ?e]
                  (snd (createTopicIfNotExists (client ?s) (dlqTopic ?s) (world (start [])))))
       = \<lparr>topics = [''orders_dlq''], subscriptions = [],
          outbox = [(''orders_dlq'', Raw ''not-json'',
                     [''error'' \<mapsto> ''invalid character 'o' in literal null (expecting 'u')''])],
          unreachable = []\<rparr>"
    by (simp add: run_defs)
  note c = C5_unmarshal_failure_dead_letters_raw_payload [OF h, of "start []"]
  from c have a: "fst (callback ?s ?m (start [])) = None"
    by (elim conjE)
  from c w have "added (start []) (snd (callback ?s ?m (start []))) =
           [Log ErrorLevel (''cannot unmarshal message '' @ ID ?m @ '' - sending to dlq''),
            Log InfoLevel (''sending message '' @ ID ?m @ '' to '' @ dlqTopic ?s),
            CallCreateTopicIfNotExists (dlqTopic ?s),
            CallPublish (dlqTopic ?s) (Raw (Data ?m)) [''error'' \<mapsto> Error ?e],
            CallAck (ID ?m)]"
    by blast
  then have b: "added (start []) (snd (callback ?s ?m (start []))) =
       [Log ErrorLevel ''cannot unmarshal message m1 - sending to dlq'',
        Log InfoLevel ''sending message m1 to orders_dlq'',
        CallCreateTopicIfNotExists ''orders_dlq'',
        CallPublish ''orders_dlq'' (Raw ''not-json'')
          [''error'' \<mapsto> ''invalid character 'o' in literal null (expecting 'u')''],
        CallAck ''m1'']"
    by (simp add: names)
  from c w have "world (snd (callback ?s ?m (start []))) =
      snd (PublishWihAttribrutes (client ?s) (dlqTopic ?s) (Raw (Data ?m))
             [''error'' \<mapsto> Error ?e]
             (snd (createTopicIfNotExists (client ?s) (dlqTopic ?s) (world (start [])))))"
    by blast
  then have d: "outbox (world (snd (callback ?s ?m (start []))))
       = [(''orders_dlq'', Raw ''not-json'',
           [''error'' \<mapsto> ''invalid character 'o' in literal null (expecting 'u')''])]"
    by (simp only: after broker.simps)
  from h a b d show ?thesis by (intro conjI)
qed

text \<open>
  C6, what the code does: when the subscription does not exist and the topic cannot
  be created, \<^verbatim>\<open>createSubscriptionIfNotExists\<close> returns a \<^verbatim>\<open>nil\<close> subscription with the
  error, and \<^verbatim>\<open>Run\<close> writes to a field of that subscription before it looks at the
  error: it panics instead of returning the error. The receive loop is not entered.
  (An error of the existence check itself is returned, see
  \<open>Run_exists_error_is_returned\<close>; an error of the subscription's creation panics
  the same way, see \<open>Run_subscription_creation_error_panics\<close>.)
\<close>

theorem C6_topic_creation_error_makes_Run_panic:
  assumes "fst (Exists (client s) (subscriberID s) (world st)) = (False, None)"
    and "snd (fst (createTopicIfNotExists (client s) (topicID s)
                     (snd (Exists (client s) (subscriberID s) (world st))))) = Some e"
  shows "fst (createSubscriptionIfNotExists (client s) (subscriberID s) (topicID s) (ackDeadline s) st)
           = (None, Some e)
    \<and> fst (Run s deliveries final st) = Panicked ''invalid memory address or nil pointer dereference''
    \<and> added st (snd (Run s deliveries final st))
        = [CallExists (subscriberID s), CallCreateTopicIfNotExists (topicID s),
           Log ErrorLevel (''error creating topic '' @ topicID s)]"
  using assms
  by (simp add: Run_def createSubscriptionIfNotExists_def call_def emit_def added_def
        Let_def split_def)

text \<open>
  C6 on a transport where the topic \<^verbatim>\<open>orders\<close> is out of reach.
\<close>

theorem C6_failing_input:
  "fst (Exists (client (orders succeedingHandler 5)) ''orders-sub'' (world (start [''orders''])))
     = (False, None)
   \<and> fst (createSubscriptionIfNotExists (client (orders succeedingHandler 5))
            ''orders-sub'' ''orders'' 10000000000 (start [''orders'']))
       = (None, Some (errorNew ''unavailable''))
   \<and> fst (Run (orders succeedingHandler 5) [delivery ''{}'' None] None (start [''orders'']))
       = Panicked ''invalid memory address or nil pointer dereference''
   \<and> added (start [''orders''])
        (snd (Run (orders succeedingHandler 5) [delivery ''{}'' None] None (start [''orders''])))
       = [CallExists ''orders-sub'', CallCreateTopicIfNotExists ''orders'',
          Log ErrorLevel ''error creating topic orders'']"
proof -
  let ?s = "orders succeedingHandler 5" and ?st = "start [''orders'']"
  have h1: "fst (Exists (client ?s) (subscriberID ?s) (world ?st)) = (False, None)"
    by (simp add: run_defs)
  have h2: "snd (fst (createTopicIfNotExists (client ?s) (topicID ?s)
                     (snd (Exists (client ?s) (subscriberID ?s) (world ?st)))))
              = Some (errorNew ''unavailable'')"
    by (simp add: run_defs)
  have names: "subscriberID ?s = ''orders-sub''" "topicID ?s = ''orders''"
    "ackDeadline ?s = 10000000000"
    by (simp_all add: orders_def)
  from C6_topic_creation_error_makes_Run_panic [OF h1 h2, of "[delivery ''{}'' None]" None] h1
  show ?thesis
    by (simp add: names)
qed




text \<open>
  C8 as the code has it. \<^verbatim>\<open>getRetries\<close> has no error result and no panic; it drops
  the error of \<^verbatim>\<open>Atoi\<close> and keeps its value. The retry count is 0 when the attribute
  is missing (also in a \<^verbatim>\<open>nil\<close> map) and when \<^verbatim>\<open>Atoi\<close> rejects the value with a syntax
  error. When \<^verbatim>\<open>Atoi\<close> rejects it with a range error, the count is the nearest bound
  of \<^verbatim>\<open>int\<close>, by the sign, and not 0. When \<^verbatim>\<open>Atoi\<close> accepts it, the value is an optional
  sign and decimal digits and the count is the number they denote. The last two
  conjuncts say which strings get which error: a syntax error is a value that is not
  an optional sign and digits and whose digits before the first other byte fit 64
  bits; a range error is such a value whose digits before that byte overflow 64
  bits, or a decimal numeral outside \<^verbatim>\<open>int\<close>.
\<close>

theorem C8_getRetries_zero_on_syntax_error_bound_on_range_error:
  "(lookupAttribute m (maxRetriesAttribute s) = None \<longrightarrow> fst (getRetries s m) = 0)
   \<and> (\<forall>v. lookupAttribute m (maxRetriesAttribute s) = Some v \<longrightarrow>
          (snd (Atoi v) = Some ErrSyntax \<longrightarrow> fst (getRetries s m) = 0)
        \<and> (snd (Atoi v) = Some ErrRange \<longrightarrow>
              sint (fst (getRetries s m)) = (if fst (splitSign v) then minInt else maxInt))
        \<and> (snd (Atoi v) = None \<longrightarrow>
              isDecimal v \<and> sint (fst (getRetries s m)) = decimalValue v)
        \<and> (snd (Atoi v) = Some ErrSyntax
              \<longleftrightarrow> \<not> isDecimal v \<and> parseDigits (digitPrefix v) \<le> maxUint64)
        \<and> (snd (Atoi v) = Some ErrRange
              \<longleftrightarrow> (\<not> isDecimal v \<and> maxUint64 < parseDigits (digitPrefix v))
                \<or> (isDecimal v \<and> (maxInt < decimalValue v \<or> decimalValue v < minInt))))"
proof -
  have range: "minInt \<le> maxInt"
    by (simp add: minInt_def maxInt_def)
  have bounds: "sint (word_of_int maxInt :: go_int) = maxInt"
    "sint (word_of_int minInt :: go_int) = minInt"
    using range by (simp_all add: sint_go_int)
  have neg: "decimalValue v < minInt \<Longrightarrow> fst (splitSign v)" for v
    by (cases "splitSign v") (auto simp: decimalValue_def minInt_def Let_def split: if_splits)
  have pos: "maxInt < decimalValue v \<Longrightarrow> \<not> fst (splitSign v)" for v
    by (cases "splitSign v") (auto simp: decimalValue_def maxInt_def Let_def split: if_splits)
  have verdict: "(snd (Atoi v) = Some ErrSyntax \<longrightarrow> fst (Atoi v) = 0)
        \<and> (snd (Atoi v) = Some ErrRange \<longrightarrow>
              sint (fst (Atoi v)) = (if fst (splitSign v) then minInt else maxInt))
        \<and> (snd (Atoi v) = None \<longrightarrow> isDecimal v \<and> sint (fst (Atoi v)) = decimalValue v)
        \<and> (snd (Atoi v) = Some ErrSyntax
              \<longleftrightarrow> \<not> isDecimal v \<and> parseDigits (digitPrefix v) \<le> maxUint64)
        \<and> (snd (Atoi v) = Some ErrRange
              \<longleftrightarrow> (\<not> isDecimal v \<and> maxUint64 < parseDigits (digitPrefix v))
                \<or> (isDecimal v \<and> (maxInt < decimalValue v \<or> decimalValue v < minInt)))" for v
  proof (cases "isDecimal v")
    case True
    from Atoi_decimal [OF True] True neg [of v] pos [of v] show ?thesis
      by (auto simp: bounds sint_go_int split: if_splits)
  next
    case False
    from Atoi_not_decimal [OF False] False show ?thesis
      by (auto simp: bounds split: if_splits)
  qed
  show ?thesis
    using verdict by (simp add: getRetries_lookup)
qed

text \<open>
  C8 as stated fails: \<^verbatim>\<open>Atoi\<close> reports a range error for \<^verbatim>\<open>"9223372036854775808"\<close>,
  and the retry count read from it is the largest \<^verbatim>\<open>int\<close>.
\<close>

theorem C8_counterexample:
  "snd (Atoi ''9223372036854775808'') = Some ErrRange
   \<and> fst (getRetries (orders succeedingHandler 5)
            (delivery ''{}'' (Some [''retries'' \<mapsto> ''9223372036854775808''])))
       = 9223372036854775807
   \<and> fst (getRetries (orders succeedingHandler 5)
            (delivery ''{}'' (Some [''retries'' \<mapsto> ''9223372036854775808''])))
       \<noteq> 0"
  by (simp add: run_defs atoi_defs)

text \<open>
  The cases of C8 on a message without attributes, and on messages whose \<^verbatim>\<open>retries\<close>
  is \<^verbatim>\<open>"1x"\<close> (syntax error), twenty nines followed by \<^verbatim>\<open>x\<close> (the digits overflow
  before the \<^verbatim>\<open>x\<close> is read: range error) and \<^verbatim>\<open>"-7"\<close> (accepted).
\<close>

theorem C8_witness:
  "lookupAttribute (delivery ''{}'' None) ''retries'' = None
   \<and> fst (getRetries (orders succeedingHandler 5) (delivery ''{}'' None)) = 0
   \<and> snd (Atoi ''1x'') = Some ErrSyntax
   \<and> fst (getRetries (orders succeedingHandler 5) (delivery ''{}'' (Some [''retries'' \<mapsto> ''1x'']))) = 0
   \<and> snd (Atoi ''99999999999999999999x'') = Some ErrRange
   \<and> sint (fst (getRetries (orders succeedingHandler 5)
                  (delivery ''{}'' (Some [''retries'' \<mapsto> ''99999999999999999999x''])))) = maxInt
   \<and> snd (Atoi ''-7'') = None
   \<and> sint (fst (getRetries (orders succeedingHandler 5)
                  (delivery ''{}'' (Some [''retries'' \<mapsto> ''-7''])))) = - 7"
proof -
  let ?s = "orders succeedingHandler 5"
  let ?m0 = "delivery ''{}'' None"
  let ?m1 = "delivery ''{}'' (Some [''retries'' \<mapsto> ''1x''])"
  let ?m2 = "delivery ''{}'' (Some [''retries'' \<mapsto> ''99999999999999999999x''])"
  let ?m3 = "delivery ''{}'' (Some [''retries'' \<mapsto> ''-7''])"
  have key: "maxRetriesAttribute ?s = ''retries''"
    by (simp add: orders_def)
  have l0: "lookupAttribute ?m0 ''retries'' = None"
    by (simp add: run_defs)
  have l1: "lookupAttribute ?m1 ''retries'' = Some ''1x''"
    by (simp add: run_defs)
  have l2: "lookupAttribute ?m2 ''retries'' = Some ''99999999999999999999x''"
    by (simp add: run_defs)
  have l3: "lookupAttribute ?m3 ''retries'' = Some ''-7''"
    by (simp add: run_defs)
  have d1: "snd (Atoi ''1x'') = Some ErrSyntax"
    by (simp add: atoi_defs)
  have d2: "snd (Atoi ''99999999999999999999x'') = Some ErrRange"
    "\<not> fst (splitSign ''99999999999999999999x'')"
    by (simp_all add: atoi_defs)
  have d3: "snd (Atoi ''-7'') = None" "decimalValue ''-7'' = - 7"
    by (simp_all add: atoi_defs)
  have r0: "fst (getRetries ?s ?m0) = 0"
    using C8_getRetries_zero_on_syntax_error_bound_on_range_error [of ?m0 ?s] l0
    by (simp add: key)
  have r1: "fst (getRetries ?s ?m1) = 0"
    using C8_getRetries_zero_on_syntax_error_bound_on_range_error [of ?m1 ?s] l1 d1
    by (simp add: key)
  have r2: "sint (fst (getRetries ?s ?m2)) = maxInt"
    using C8_getRetries_zero_on_syntax_error_bound_on_range_error [of ?m2 ?s] l2 d2
    by (simp add: key)
  have r3: "sint (fst (getRetries ?s ?m3)) = - 7"
    using C8_getRetries_zero_on_syntax_error_bound_on_range_error [of ?m3 ?s] l3 d3
    by (simp add: key)
  from l0 r0 d1 r1 d2(1) r2 d3(1) r3 show ?thesis by (intro conjI)
qed

text \<open>
  C9. When the subscription is reported to exist, \<^verbatim>\<open>createSubscriptionIfNotExists\<close>
  returns the handle of that subscription and no error, after the existence check
  alone: no topic and no subscription is created.
\<close>

theorem C9_existing_subscription_is_returned:
  assumes "fst (Exists c subscriberID' (world st)) = (True, None)"
  shows "fst (createSubscriptionIfNotExists c subscriberID' topicID' ackDeadline' st)
           = (Some (Subscription subscriberID'), None)
    \<and> added st (snd (createSubscriptionIfNotExists c subscriberID' topicID' ackDeadline' st))
           = [CallExists subscriberID']
    \<and> filter isCreation (added st (snd (createSubscriptionIfNotExists c subscriberID' topicID' ackDeadline' st))) = []
    \<and> world (snd (createSubscriptionIfNotExists c subscriberID' topicID' ackDeadline' st))
           = snd (Exists c subscriberID' (world st))"
  using assms
  by (simp add: createSubscriptionIfNotExists_def call_def added_def Let_def split_def)

text \<open>
  On the in-memory transport: the first call creates the topic and the subscription,
  the second call with the same IDs finds the subscription and creates nothing.
\<close>

theorem C9_witness:
  "fst (Exists memClient ''orders-sub''
          (world (snd (createSubscriptionIfNotExists memClient ''orders-sub'' ''orders'' 10 (start [])))))
     = (True, None)
   \<and> filter isCreation (added (start [])
         (snd (createSubscriptionIfNotExists memClient ''orders-sub'' ''orders'' 10 (start []))))
       = [CallCreateTopicIfNotExists ''orders'', CallCreateSubscription ''orders-sub'' (Some (Topic ''orders'')) 10]
   \<and> fst (createSubscriptionIfNotExists memClient ''orders-sub'' ''orders'' 10
            (snd (createSubscriptionIfNotExists memClient ''orders-sub'' ''orders'' 10 (start []))))
       = (Some (Subscription ''orders-sub''), None)
   \<and> filter isCreation (added (snd (createSubscriptionIfNotExists memClient ''orders-sub'' ''orders'' 10 (start [])))
         (snd (createSubscriptionIfNotExists memClient ''orders-sub'' ''orders'' 10
            (snd (createSubscriptionIfNotExists memClient ''orders-sub'' ''orders'' 10 (start []))))))
       = []"
proof -
  let ?st1 = "snd (createSubscriptionIfNotExists memClient ''orders-sub'' ''orders'' 10 (start []))"
  have h: "fst (Exists memClient ''orders-sub'' (world ?st1)) = (True, None)"
    by (simp add: run_defs)
  have first: "filter isCreation (added (start []) ?st1)
       = [CallCreateTopicIfNotExists ''orders'', CallCreateSubscription ''orders-sub'' (Some (Topic ''orders'')) 10]"
    by (simp add: run_defs)
  note c = C9_existing_subscription_is_returned [OF h, of "''orders''" 10]
  from c have a: "fst (createSubscriptionIfNotExists memClient ''orders-sub'' ''orders'' 10 ?st1)
       = (Some (Subscription ''orders-sub''), None)"
    by (elim conjE)
  from c have b: "filter isCreation (added ?st1
         (snd (createSubscriptionIfNotExists memClient ''orders-sub'' ''orders'' 10 ?st1))) = []"
    by (elim conjE)
  from h first a b show ?thesis by (intro conjI)
qed



end
